theory Spec2Isabelle
  imports Complex_Main
begin

section \<open>Geometry engine: the operation specs (geometry\_engine.py)\<close>

text \<open>
  Python floats are modelled as real numbers: the comparisons \<open>x \<le> 0\<close> and the product
  \<open>depth * 2\<close> of the source are read over the reals (finite floats; NaN and the
  infinities are outside the model). A 3-tuple of floats is a triple of reals.
\<close>

type_synonym point3 = "real \<times> real \<times> real"

record SketchCircle =
  sc_radius :: real
  sc_is_hole :: bool

record Extrude =
  ex_length :: real

record BaseBox =
  bb_width :: real
  bb_depth :: real
  bb_height :: real
  bb_centered_xy :: bool
  bb_centered_z :: bool

record CutBox =
  cb_width :: real
  cb_depth :: real
  cb_height :: real
  cb_center :: point3

text \<open>
  \<open>ThroughHole.axis\<close> is annotated \<open>Literal["x", "y", "z"]\<close> but is an ordinary string at
  run time (job\_runner.py passes \<open>str(op.get("axis", "z"))\<close>), and \<open>build_solid\<close> checks
  it, so it is a string here.
\<close>

record ThroughHole =
  th_radius :: real
  th_depth :: real
  th_axis :: string
  th_center :: point3

text \<open>\<open>Operation = Union[SketchCircle, Extrude, BaseBox, CutBox, ThroughHole]\<close>;
  the \<open>isinstance\<close> chain of \<open>build_solid\<close> is a case distinction on this type (its
  final \<open>else: raise TypeError\<close> is unreachable for a value of the union).\<close>

datatype Operation =
    OpSketchCircle SketchCircle
  | OpExtrude Extrude
  | OpBaseBox BaseBox
  | OpCutBox CutBox
  | OpThroughHole ThroughHole

record SolidSpec =
  spec_id :: string
  operations :: "Operation list"

section \<open>The external modelling kernel, as the calls the engine makes\<close>

text \<open>
  \<open>build_solid\<close> talks to CadQuery through a fluent interface; each call returns a new
  workplane object. A workplane value is modelled by the chain of calls that produced it:
  \<open>cq.Workplane(p)\<close>, \<open>.center(x, y)\<close>, \<open>.circle(r)\<close>, \<open>.extrude(d, both=b)\<close>,
  \<open>.box(l, w, h, centered=c)\<close>, \<open>.translate(v)\<close> and \<open>.cut(tool)\<close>.
\<close>

datatype plane_name = XY | YZ | XZ

datatype workplane =
    Workplane plane_name
  | Center workplane real real
  | Circle workplane real
  | ExtrudeBy workplane real bool
  | Box workplane real real real "bool \<times> bool \<times> bool"
  | Translate workplane point3
  | Cut workplane workplane

text \<open>The kernel calls behind a workplane value, in the order the engine issues them
  (for \<open>solid.cut(tool)\<close>: \<open>solid\<close> exists first, then the tool is built, then the cut).\<close>

datatype kcall =
    K_Workplane plane_name
  | K_center real real
  | K_circle real
  | K_extrude real bool
  | K_box real real real "bool \<times> bool \<times> bool"
  | K_translate point3
  | K_cut

fun kernel_calls :: "workplane \<Rightarrow> kcall list" where
  "kernel_calls (Workplane p) = [K_Workplane p]"
| "kernel_calls (Center w x y) = kernel_calls w @ [K_center x y]"
| "kernel_calls (Circle w r) = kernel_calls w @ [K_circle r]"
| "kernel_calls (ExtrudeBy w d b) = kernel_calls w @ [K_extrude d b]"
| "kernel_calls (Box w l wd h c) = kernel_calls w @ [K_box l wd h c]"
| "kernel_calls (Translate w v) = kernel_calls w @ [K_translate v]"
| "kernel_calls (Cut w t) = kernel_calls w @ kernel_calls t @ [K_cut]"

text \<open>The calls that create or change a solid body; creating an empty workplane, moving
  its origin and drawing a circle into the sketch do not.\<close>

fun constructs_solid :: "kcall \<Rightarrow> bool" where
  "constructs_solid (K_extrude d b) = True"
| "constructs_solid (K_box l w h c) = True"
| "constructs_solid (K_translate v) = True"
| "constructs_solid K_cut = True"
| "constructs_solid (K_Workplane p) = False"
| "constructs_solid (K_center x y) = False"
| "constructs_solid (K_circle r) = False"

text \<open>\<open>wp.objects is None or len(wp.objects) == 0\<close>: a fresh \<open>cq.Workplane\<close> has an empty
  object stack, and every call of the chain pushes its result onto the stack.\<close>

fun objects_empty :: "workplane \<Rightarrow> bool" where
  "objects_empty (Workplane p) = True"
| "objects_empty (Center w x y) = False"
| "objects_empty (Circle w r) = False"
| "objects_empty (ExtrudeBy w d b) = False"
| "objects_empty (Box w l wd h c) = False"
| "objects_empty (Translate w v) = False"
| "objects_empty (Cut w t) = False"

section \<open>GeometryEngine.build\_solid\<close>

text \<open>One constructor per \<open>raise\<close> of \<open>build_solid\<close>, in source order. All of them are
  \<open>ValueError\<close>s in the source, told apart by their message; the messages that quote
  \<open>spec.id\<close> carry it. The last constructor is the \<open>AttributeError\<close> that
  \<open>extrude_op.length\<close> would raise on \<open>None\<close>; the style checks make it unreachable
  (lemma \<open>build_solid_no_attribute_error\<close>).\<close>

datatype error =
    NoOperations string
  | SketchCircleRadiusNotPositive
  | MultipleExtrude string
  | ExtrudeLengthNotPositive
  | MultipleBaseBox string
  | BaseBoxDimensionsNotPositive
  | CutBoxDimensionsNotPositive
  | ThroughHoleRadiusDepthNotPositive
  | ThroughHoleAxisInvalid
  | MixedBaseStyle string
  | NoBaseStyle string
  | NoPositiveGeometry string
  | AttributeErrorNone

text \<open>The five local variables of the first pass.\<close>

record buckets =
  sketch_circles :: "SketchCircle list"
  extrude_op :: "Extrude option"
  base_box :: "BaseBox option"
  cut_boxes :: "CutBox list"
  through_holes :: "ThroughHole list"

definition empty_buckets :: buckets where
  "empty_buckets =
     \<lparr>sketch_circles = [], extrude_op = None, base_box = None,
      cut_boxes = [], through_holes = []\<rparr>"

text \<open>The body of the loop \<open>for op in spec.operations\<close>; the first argument is
  \<open>spec.id\<close>.\<close>

fun classify_op :: "string \<Rightarrow> buckets \<Rightarrow> Operation \<Rightarrow> error + buckets" where
  "classify_op sid b (OpSketchCircle op) =
     (if sc_radius op \<le> 0 then Inl SketchCircleRadiusNotPositive
      else Inr (b\<lparr>sketch_circles := sketch_circles b @ [op]\<rparr>))"
| "classify_op sid b (OpExtrude op) =
     (if extrude_op b \<noteq> None then Inl (MultipleExtrude sid)
      else if ex_length op \<le> 0 then Inl ExtrudeLengthNotPositive
      else Inr (b\<lparr>extrude_op := Some op\<rparr>))"
| "classify_op sid b (OpBaseBox op) =
     (if base_box b \<noteq> None then Inl (MultipleBaseBox sid)
      else if bb_width op \<le> 0 \<or> bb_depth op \<le> 0 \<or> bb_height op \<le> 0
        then Inl BaseBoxDimensionsNotPositive
      else Inr (b\<lparr>base_box := Some op\<rparr>))"
| "classify_op sid b (OpCutBox op) =
     (if cb_width op \<le> 0 \<or> cb_depth op \<le> 0 \<or> cb_height op \<le> 0
        then Inl CutBoxDimensionsNotPositive
      else Inr (b\<lparr>cut_boxes := cut_boxes b @ [op]\<rparr>))"
| "classify_op sid b (OpThroughHole op) =
     (if th_radius op \<le> 0 \<or> th_depth op \<le> 0 then Inl ThroughHoleRadiusDepthNotPositive
      else if th_axis op \<notin> {''x'', ''y'', ''z''} then Inl ThroughHoleAxisInvalid
      else Inr (b\<lparr>through_holes := through_holes b @ [op]\<rparr>))"

fun classify :: "string \<Rightarrow> buckets \<Rightarrow> Operation list \<Rightarrow> error + buckets" where
  "classify sid b [] = Inr b"
| "classify sid b (op # ops) =
     (case classify_op sid b op of
        Inl e \<Rightarrow> Inl e
      | Inr b' \<Rightarrow> classify sid b' ops)"

text \<open>\<open>cq.Workplane("XY").box(w, d, h, centered=(cxy, cxy, cz))\<close>\<close>

definition base_box_solid :: "BaseBox \<Rightarrow> workplane" where
  "base_box_solid bb =
     Box (Workplane XY) (bb_width bb) (bb_depth bb) (bb_height bb)
       (bb_centered_xy bb, bb_centered_xy bb, bb_centered_z bb)"

text \<open>\<open>for sc in sketch_circles: if not sc.is_hole: wp = wp.circle(sc.radius)\<close>\<close>

fun draw_circles :: "workplane \<Rightarrow> SketchCircle list \<Rightarrow> workplane" where
  "draw_circles wp [] = wp"
| "draw_circles wp (sc # scs) =
     draw_circles (if \<not> sc_is_hole sc then Circle wp (sc_radius sc) else wp) scs"

text \<open>\<open>cq.Workplane("XY").circle(sc.radius).extrude(extrude_op.length)\<close>\<close>

definition hole_tool :: "real \<Rightarrow> SketchCircle \<Rightarrow> workplane" where
  "hole_tool len sc = ExtrudeBy (Circle (Workplane XY) (sc_radius sc)) len False"

text \<open>\<open>for sc in sketch_circles: if sc.is_hole: ... solid = solid.cut(hole)\<close>\<close>

fun cut_holes :: "real \<Rightarrow> workplane \<Rightarrow> SketchCircle list \<Rightarrow> workplane" where
  "cut_holes len solid [] = solid"
| "cut_holes len solid (sc # scs) =
     cut_holes len (if sc_is_hole sc then Cut solid (hole_tool len sc) else solid) scs"

text \<open>The tool of one \<open>CutBox\<close>:
  \<open>cq.Workplane("XY").center(cx, cy).box(w, d, h, centered=(True, True, True))\<close>,
  then \<open>.translate((0, 0, cz))\<close>.\<close>

definition cut_box_tool :: "CutBox \<Rightarrow> workplane" where
  "cut_box_tool cb =
     (case cb_center cb of (cx, cy, cz) \<Rightarrow>
        Translate
          (Box (Center (Workplane XY) cx cy) (cb_width cb) (cb_depth cb) (cb_height cb)
             (True, True, True))
          (0, 0, cz))"

fun apply_cut_boxes :: "workplane \<Rightarrow> CutBox list \<Rightarrow> workplane" where
  "apply_cut_boxes solid [] = solid"
| "apply_cut_boxes solid (cb # cbs) = apply_cut_boxes (Cut solid (cut_box_tool cb)) cbs"

text \<open>The tool of one \<open>ThroughHole\<close>: the three branches on \<open>hole.axis\<close>, with the
  arguments of \<open>.center\<close> exactly as the source passes them.\<close>

definition through_hole_tool :: "ThroughHole \<Rightarrow> workplane" where
  "through_hole_tool hole =
     (case th_center hole of (cx, cy, cz) \<Rightarrow>
        if th_axis hole = ''z'' then
          ExtrudeBy (Circle (Center (Workplane XY) cx cy) (th_radius hole))
            (th_depth hole * 2) True
        else if th_axis hole = ''x'' then
          ExtrudeBy (Circle (Center (Workplane YZ) cz cy) (th_radius hole))
            (th_depth hole * 2) True
        else
          ExtrudeBy (Circle (Center (Workplane XZ) cx cz) (th_radius hole))
            (th_depth hole * 2) True)"

fun apply_through_holes :: "workplane \<Rightarrow> ThroughHole list \<Rightarrow> workplane" where
  "apply_through_holes solid [] = solid"
| "apply_through_holes solid (hole # holes) =
     apply_through_holes (Cut solid (through_hole_tool hole)) holes"

text \<open>"Apply 3D modifier operations": first every cut box, then every through hole.\<close>

definition apply_modifiers :: "buckets \<Rightarrow> workplane \<Rightarrow> workplane" where
  "apply_modifiers b solid =
     apply_through_holes (apply_cut_boxes solid (cut_boxes b)) (through_holes b)"

text \<open>"Build the base solid" and the modifier pass, for buckets that passed the two
  style checks. The result is the kernel calls made and either the error raised or the
  workplane returned; the sketch branch raises after it has created the empty workplane.\<close>

definition construct :: "string \<Rightarrow> buckets \<Rightarrow> kcall list \<times> (error + workplane)" where
  "construct sid b =
     (case base_box b of
        Some bb \<Rightarrow>
          (let solid = apply_modifiers b (base_box_solid bb)
           in (kernel_calls solid, Inr solid))
      | None \<Rightarrow>
          (let wp = draw_circles (Workplane XY) (sketch_circles b)
           in if objects_empty wp then (kernel_calls wp, Inl (NoPositiveGeometry sid))
              else
                (case extrude_op b of
                   None \<Rightarrow> (kernel_calls wp, Inl AttributeErrorNone)
                 | Some ex \<Rightarrow>
                     (let solid =
                            apply_modifiers b
                              (cut_holes (ex_length ex)
                                 (ExtrudeBy wp (ex_length ex) False) (sketch_circles b))
                      in (kernel_calls solid, Inr solid)))))"

text \<open>\<open>build_solid\<close>. \<open>if not spec.operations\<close> is the test for the empty list. In
  \<open>if base_box and (sketch_circles or extrude_op)\<close> the dataclass instances are truthy, so
  the test is for presence of a base box and of a circle or an extrude.\<close>

definition build_solid :: "SolidSpec \<Rightarrow> kcall list \<times> (error + workplane)" where
  "build_solid spec =
     (if operations spec = [] then ([], Inl (NoOperations (spec_id spec)))
      else
        (case classify (spec_id spec) empty_buckets (operations spec) of
           Inl e \<Rightarrow> ([], Inl e)
         | Inr b \<Rightarrow>
             if base_box b \<noteq> None \<and> (sketch_circles b \<noteq> [] \<or> extrude_op b \<noteq> None)
               then ([], Inl (MixedBaseStyle (spec_id spec)))
             else if base_box b = None \<and> extrude_op b = None
               then ([], Inl (NoBaseStyle (spec_id spec)))
             else construct (spec_id spec) b))"

section \<open>Geometry of the kernel's workplanes\<close>

text \<open>
  What the workplane values mean geometrically is decided by CadQuery, which is not part
  of this repository. The definitions of this section record the kernel's documented
  conventions, as far as the properties below need them:
  \<^item> a named plane has a local x direction, a local y direction and a normal:
    \<open>"XY"\<close> has x = +X, y = +Y, normal +Z; \<open>"YZ"\<close> has x = +Y, y = +Z, normal +X;
    \<open>"XZ"\<close> has x = +X, y = +Z, normal -Y;
  \<^item> \<open>.center(x, y)\<close> moves the local origin by \<open>x\<close> along the local x direction and
    by \<open>y\<close> along the local y direction;
  \<^item> \<open>.circle(r).extrude(d, both=b)\<close> sweeps the circle by \<open>d\<close> along the normal, and
    by \<open>d\<close> against it as well when \<open>b\<close> holds;
  \<^item> \<open>.box(l, w, h, centered=(cx, cy, cz))\<close> on the XY plane spans \<open>l\<close>, \<open>w\<close>, \<open>h\<close>
    along X, Y, Z, about the local origin where the flag holds and from it otherwise;
  \<^item> \<open>.translate(v)\<close> moves the solid by \<open>v\<close>.
\<close>

fun plane_x_dir :: "plane_name \<Rightarrow> point3" where
  "plane_x_dir XY = (1, 0, 0)"
| "plane_x_dir YZ = (0, 1, 0)"
| "plane_x_dir XZ = (1, 0, 0)"

fun plane_y_dir :: "plane_name \<Rightarrow> point3" where
  "plane_y_dir XY = (0, 1, 0)"
| "plane_y_dir YZ = (0, 0, 1)"
| "plane_y_dir XZ = (0, 0, 1)"

fun plane_normal :: "plane_name \<Rightarrow> point3" where
  "plane_normal XY = (0, 0, 1)"
| "plane_normal YZ = (1, 0, 0)"
| "plane_normal XZ = (0, - 1, 0)"

fun vadd :: "point3 \<Rightarrow> point3 \<Rightarrow> point3" where
  "vadd (a, b, c) (x, y, z) = (a + x, b + y, c + z)"

fun vsub :: "point3 \<Rightarrow> point3 \<Rightarrow> point3" where
  "vsub (a, b, c) (x, y, z) = (a - x, b - y, c - z)"

fun smul :: "real \<Rightarrow> point3 \<Rightarrow> point3" where
  "smul k (x, y, z) = (k * x, k * y, k * z)"

fun dot :: "point3 \<Rightarrow> point3 \<Rightarrow> real" where
  "dot (a, b, c) (x, y, z) = a * x + b * y + c * z"

fun cross :: "point3 \<Rightarrow> point3 \<Rightarrow> point3" where
  "cross (a, b, c) (x, y, z) = (b * z - c * y, c * x - a * z, a * y - b * x)"

text \<open>The plane and local origin of a workplane that has only been created and re-centred.\<close>

fun sketch_frame :: "workplane \<Rightarrow> (plane_name \<times> point3) option" where
  "sketch_frame (Workplane p) = Some (p, (0, 0, 0))"
| "sketch_frame (Center w x y) =
     (case sketch_frame w of
        None \<Rightarrow> None
      | Some (p, orig) \<Rightarrow>
          Some (p, vadd orig (vadd (smul x (plane_x_dir p)) (smul y (plane_y_dir p)))))"
| "sketch_frame w = None"

text \<open>A cylinder: a point of its axis, the direction of the axis, the radius, and the
  interval it occupies along the axis, measured from that point.\<close>

datatype cylinder =
  Cylinder (cyl_point: point3) (cyl_dir: point3) (cyl_radius: real) (cyl_lo: real) (cyl_hi: real)

fun cylinder_of :: "workplane \<Rightarrow> cylinder option" where
  "cylinder_of (ExtrudeBy (Circle w r) d both) =
     (case sketch_frame w of
        None \<Rightarrow> None
      | Some (p, orig) \<Rightarrow> Some (Cylinder orig (plane_normal p) r (if both then - d else 0) d))"
| "cylinder_of w = None"

text \<open>A point lies on the (infinite) axis of a cylinder.\<close>

definition on_axis :: "cylinder \<Rightarrow> point3 \<Rightarrow> bool" where
  "on_axis c pt \<longleftrightarrow> cross (vsub pt (cyl_point c)) (cyl_dir c) = (0, 0, 0)"

text \<open>An axis-aligned box, as its lowest and highest corner.\<close>

type_synonym box3 = "point3 \<times> point3"

fun box_span :: "bool \<Rightarrow> real \<Rightarrow> real \<Rightarrow> real \<times> real" where
  "box_span centered orig s = (if centered then (orig - s / 2, orig + s / 2) else (orig, orig + s))"

fun box_bounds :: "workplane \<Rightarrow> box3 option" where
  "box_bounds (Box w l wd h (cx, cy, cz)) =
     (case sketch_frame w of
        Some (XY, (ox, oy, oz)) \<Rightarrow>
          Some ((fst (box_span cx ox l), fst (box_span cy oy wd), fst (box_span cz oz h)),
                (snd (box_span cx ox l), snd (box_span cy oy wd), snd (box_span cz oz h)))
      | _ \<Rightarrow> None)"
| "box_bounds (Translate w v) =
     (case box_bounds w of None \<Rightarrow> None | Some (lo, hi) \<Rightarrow> Some (vadd lo v, vadd hi v))"
| "box_bounds w = None"

definition centred_box :: "point3 \<Rightarrow> real \<Rightarrow> real \<Rightarrow> real \<Rightarrow> box3" where
  "centred_box c w d h = (vsub c (w / 2, d / 2, h / 2), vadd c (w / 2, d / 2, h / 2))"

text \<open>The interval a cylinder occupies along its axis direction, the interval a box
  occupies along a direction, and full penetration: the first covers the second.\<close>

definition axis_extent :: "cylinder \<Rightarrow> real \<times> real" where
  "axis_extent c =
     (dot (cyl_dir c) (cyl_point c) + cyl_lo c, dot (cyl_dir c) (cyl_point c) + cyl_hi c)"

definition box_extent_along :: "point3 \<Rightarrow> box3 \<Rightarrow> real \<times> real" where
  "box_extent_along d bx =
     (min (dot d (fst bx)) (dot d (snd bx)), max (dot d (fst bx)) (dot d (snd bx)))"

definition penetrates :: "cylinder \<Rightarrow> box3 \<Rightarrow> bool" where
  "penetrates c bx \<longleftrightarrow>
     fst (axis_extent c) \<le> fst (box_extent_along (cyl_dir c) bx) \<and>
     snd (box_extent_along (cyl_dir c) bx) \<le> snd (axis_extent c)"

section \<open>Drawing engine: the specs (drawing\_engine.py)\<close>

record ViewSpec =
  vs_id :: string
  vs_direction :: point3
  vs_is_section :: bool
  vs_section_normal :: "point3 option"
  vs_scale :: "real option"

record DimensionSpec =
  ds_view_id :: string
  ds_kind :: string
  ds_label :: string
  ds_edges :: "string list"

record DrawingSpec =
  page_title :: string
  template_path :: string
  views :: "ViewSpec list"
  dimensions :: "DimensionSpec list"

section \<open>generate\_drawing\<close>

text \<open>The two \<open>raise\<close>s of the module: the \<open>RuntimeError\<close> of
  \<open>_ensure_freecad_on_path\<close> and the \<open>KeyError\<close> of the dimension pass, which quotes the
  view id.\<close>

datatype drawing_error =
    FreecadPathNotSet
  | UnknownViewId string

text \<open>What \<open>_ensure_freecad_on_path\<close> reads and writes: the environment variable and
  \<open>sys.path\<close>. \<open>if not freecad_path\<close> holds for a missing and for an empty value.\<close>

record environment =
  FREECAD_PATH :: "string option"
  sys_path :: "string list"

definition ensure_freecad_on_path :: "environment \<Rightarrow> drawing_error + environment" where
  "ensure_freecad_on_path env =
     (case FREECAD_PATH env of
        None \<Rightarrow> Inl FreecadPathNotSet
      | Some freecad_path \<Rightarrow>
          if freecad_path = [] then Inl FreecadPathNotSet
          else if freecad_path \<notin> set (sys_path env)
            then Inr (env\<lparr>sys_path := sys_path env @ [freecad_path]\<rparr>)
          else Inr env)"

text \<open>FreeCAD and TechDraw are external. The document is modelled by the calls made on it,
  in order; an object of the document is identified by its creation index, which is what
  \<open>doc.addObject\<close> returns here. \<open>MkdirParent p\<close> stands for
  \<open>Path(p).parent.mkdir(parents=True, exist_ok=True)\<close>. The calls are assumed not to
  raise; the lazy \<open>import FreeCAD\<close> is assumed to succeed once the path is set.\<close>

type_synonym obj = nat

datatype fc_call =
    NewDocument string
  | AddObject string string
  | SetShape obj workplane
  | Recompute
  | SetTemplate obj string
  | SetPageTemplate obj obj
  | SetSource obj "obj list"
  | SetDirection obj point3
  | SetScale obj real
  | SetSection obj bool
  | SetSectionNormal obj point3
  | PageAddView obj obj
  | SetType obj string
  | SetReferences2D obj "(obj \<times> string) list"
  | SetFormatSpec obj string
  | MkdirParent string
  | ExportPageAsPdf obj string
  | ExportPageAsSvg obj string

record document =
  calls :: "fc_call list"
  n_objects :: nat

definition call :: "fc_call \<Rightarrow> document \<Rightarrow> document" where
  "call c doc = doc\<lparr>calls := calls doc @ [c]\<rparr>"

definition add_object :: "string \<Rightarrow> string \<Rightarrow> document \<Rightarrow> obj \<times> document" where
  "add_object ty name doc =
     (n_objects doc,
      doc\<lparr>calls := calls doc @ [AddObject ty name], n_objects := Suc (n_objects doc)\<rparr>)"

text \<open>The body of the loop \<open>for vspec in spec.views\<close>.\<close>

definition add_view ::
  "obj \<Rightarrow> obj \<Rightarrow> ViewSpec \<Rightarrow> document \<times> (string \<rightharpoonup> obj) \<Rightarrow> document \<times> (string \<rightharpoonup> obj)" where
  "add_view page part_obj vspec st =
     (case st of (doc, view_objects) \<Rightarrow>
      case add_object ''TechDraw::DrawViewPart'' (vs_id vspec) doc of (view, d1) \<Rightarrow>
        let d2 = call (SetSource view [part_obj]) d1;
            d3 = call (SetDirection view (vs_direction vspec)) d2;
            d4 = (case vs_scale vspec of None \<Rightarrow> d3 | Some s \<Rightarrow> call (SetScale view s) d3);
            d5 = (if vs_is_section vspec then
                    (let d = call (SetSection view True) d4
                     in case vs_section_normal vspec of
                          None \<Rightarrow> d
                        | Some n \<Rightarrow> call (SetSectionNormal view n) d)
                  else d4);
            d6 = call (PageAddView page view) d5
        in (d6, view_objects(vs_id vspec \<mapsto> view)))"

fun add_views ::
  "obj \<Rightarrow> obj \<Rightarrow> ViewSpec list \<Rightarrow> document \<times> (string \<rightharpoonup> obj) \<Rightarrow> document \<times> (string \<rightharpoonup> obj)" where
  "add_views page part_obj [] st = st"
| "add_views page part_obj (vspec # vs) st =
     add_views page part_obj vs (add_view page part_obj vspec st)"

text \<open>\<open>str.lower()\<close> on the ASCII letters: \<open>A\<close>..\<open>Z\<close> (65..90) move to
  \<open>a\<close>..\<open>z\<close>, every other byte is kept. Python lowers non-ASCII letters as well; no
  such letter lowers to a letter of the five kind words, so the comparison below is not
  affected.\<close>

definition lower_char :: "char \<Rightarrow> char" where
  "lower_char c =
     (let n = of_char c :: nat in if 65 \<le> n \<and> n \<le> 90 then char_of (n + 32) else c)"

definition str_lower :: "string \<Rightarrow> string" where
  "str_lower s = map lower_char s"

text \<open>"Basic mapping from our abstract kind to TechDraw's Type": the value stored in \<open>dim.Type\<close>.\<close>

definition dimension_type :: "string \<Rightarrow> string" where
  "dimension_type kind =
     (let kind_lower = str_lower kind
      in if kind_lower \<in> {''linear'', ''distance''} then ''Distance''
         else if kind_lower \<in> {''diameter'', ''radial'', ''radius''} then ''Diameter''
         else kind)"

text \<open>The loop \<open>for dspec in spec.dimensions\<close>: it stops with the \<open>KeyError\<close> at the
  first dimension whose view id is not a key of \<open>view_objects\<close>.\<close>

fun add_dimensions ::
  "obj \<Rightarrow> (string \<rightharpoonup> obj) \<Rightarrow> DimensionSpec list \<Rightarrow> document \<Rightarrow>
     document \<times> (drawing_error + unit)" where
  "add_dimensions page view_objects [] doc = (doc, Inr ())"
| "add_dimensions page view_objects (dspec # ds) doc =
     (case view_objects (ds_view_id dspec) of
        None \<Rightarrow> (doc, Inl (UnknownViewId (ds_view_id dspec)))
      | Some view_obj \<Rightarrow>
          (case add_object ''TechDraw::DrawViewDimension'' (''Dim_'' @ ds_view_id dspec) doc of
             (dim_obj, d1) \<Rightarrow>
               let d2 = call (SetType dim_obj (dimension_type (ds_kind dspec))) d1;
                   d3 = call (SetReferences2D dim_obj (map (\<lambda>edge_name. (view_obj, edge_name))
                                (ds_edges dspec))) d2;
                   d4 = call (SetFormatSpec dim_obj (ds_label dspec)) d3;
                   d5 = call (PageAddView page dim_obj) d4
               in add_dimensions page view_objects ds d5))"

text \<open>The export at the end of \<open>generate_drawing\<close>.\<close>

definition export_page :: "obj \<Rightarrow> string \<Rightarrow> string option \<Rightarrow> document \<Rightarrow> document" where
  "export_page page output_pdf output_svg doc =
     (let d1 = call (MkdirParent output_pdf) doc;
          d2 = call (ExportPageAsPdf page output_pdf) d1
      in case output_svg of
           None \<Rightarrow> d2
         | Some svg \<Rightarrow> call (ExportPageAsSvg page svg) (call (MkdirParent svg) d2))"

text \<open>The first statements of \<open>generate_drawing\<close> after the imports, up to
  \<open>page.Template = template\<close>: they return the body, the page and the document.\<close>

definition page_setup :: "workplane \<Rightarrow> DrawingSpec \<Rightarrow> obj \<times> obj \<times> document" where
  "page_setup solid spec =
     (let doc = call (NewDocument (page_title spec)) \<lparr>calls = [], n_objects = 0\<rparr> in
      case add_object ''Part::Feature'' ''Body'' doc of (part_obj, d1) \<Rightarrow>
      let d2 = call (SetShape part_obj solid) d1;
          d3 = call Recompute d2 in
      case add_object ''TechDraw::DrawPage'' ''Page'' d3 of (page, d4) \<Rightarrow>
      case add_object ''TechDraw::DrawSVGTemplate'' ''Template'' d4 of (template, d5) \<Rightarrow>
      let d6 = call (SetTemplate template (template_path spec)) d5;
          d7 = call (SetPageTemplate page template) d6
      in (part_obj, page, d7))"

text \<open>\<open>generate_drawing\<close>: the calls made on FreeCAD and either the error raised or the
  normal return (the function returns \<open>None\<close>).\<close>

definition generate_drawing ::
  "environment \<Rightarrow> workplane \<Rightarrow> DrawingSpec \<Rightarrow> string \<Rightarrow> string option \<Rightarrow>
     fc_call list \<times> (drawing_error + unit)" where
  "generate_drawing env solid spec output_pdf output_svg =
     (case ensure_freecad_on_path env of
        Inl e \<Rightarrow> ([], Inl e)
      | Inr env' \<Rightarrow>
          case page_setup solid spec of (part_obj, page, d7) \<Rightarrow>
          case add_views page part_obj (views spec) (d7, Map.empty) of (d8, view_objects) \<Rightarrow>
          case add_dimensions page view_objects (dimensions spec) (call Recompute d8) of
            (d10, Inl e) \<Rightarrow> (calls d10, Inl e)
          | (d10, Inr u) \<Rightarrow>
              (calls (export_page page output_pdf output_svg (call Recompute d10)), Inr ()))"

section \<open>Vocabulary of the properties\<close>

text \<open>Which operations a list holds, by kind, in list order.\<close>

fun is_sketch_circle :: "Operation \<Rightarrow> bool" where
  "is_sketch_circle (OpSketchCircle c) = True"
| "is_sketch_circle _ = False"

fun is_extrude :: "Operation \<Rightarrow> bool" where
  "is_extrude (OpExtrude e) = True"
| "is_extrude _ = False"

fun is_base_box :: "Operation \<Rightarrow> bool" where
  "is_base_box (OpBaseBox bb) = True"
| "is_base_box _ = False"

fun circles_of :: "Operation list \<Rightarrow> SketchCircle list" where
  "circles_of [] = []"
| "circles_of (OpSketchCircle c # ops) = c # circles_of ops"
| "circles_of (_ # ops) = circles_of ops"

fun extrudes_of :: "Operation list \<Rightarrow> Extrude list" where
  "extrudes_of [] = []"
| "extrudes_of (OpExtrude e # ops) = e # extrudes_of ops"
| "extrudes_of (_ # ops) = extrudes_of ops"

fun base_boxes_of :: "Operation list \<Rightarrow> BaseBox list" where
  "base_boxes_of [] = []"
| "base_boxes_of (OpBaseBox bb # ops) = bb # base_boxes_of ops"
| "base_boxes_of (_ # ops) = base_boxes_of ops"

fun cut_boxes_of :: "Operation list \<Rightarrow> CutBox list" where
  "cut_boxes_of [] = []"
| "cut_boxes_of (OpCutBox cb # ops) = cb # cut_boxes_of ops"
| "cut_boxes_of (_ # ops) = cut_boxes_of ops"

fun through_holes_of :: "Operation list \<Rightarrow> ThroughHole list" where
  "through_holes_of [] = []"
| "through_holes_of (OpThroughHole h # ops) = h # through_holes_of ops"
| "through_holes_of (_ # ops) = through_holes_of ops"

text \<open>The numeric constraints of one operation: every length, radius and depth strictly
  positive, the axis one of x, y, z.\<close>

fun params_ok :: "Operation \<Rightarrow> bool" where
  "params_ok (OpSketchCircle c) = (0 < sc_radius c)"
| "params_ok (OpExtrude e) = (0 < ex_length e)"
| "params_ok (OpBaseBox bb) = (0 < bb_width bb \<and> 0 < bb_depth bb \<and> 0 < bb_height bb)"
| "params_ok (OpCutBox cb) = (0 < cb_width cb \<and> 0 < cb_depth cb \<and> 0 < cb_height cb)"
| "params_ok (OpThroughHole h) =
     (0 < th_radius h \<and> 0 < th_depth h \<and> th_axis h \<in> {''x'', ''y'', ''z''})"

text \<open>An operation list passes the first pass when every operation meets its constraints and
  there is at most one Extrude and at most one BaseBox (lemma \<open>classify_empty_ok_iff\<close>).\<close>

definition passes_classification :: "Operation list \<Rightarrow> bool" where
  "passes_classification ops \<longleftrightarrow>
     list_all params_ok ops \<and> length (extrudes_of ops) \<le> 1 \<and> length (base_boxes_of ops) \<le> 1"

text \<open>The error the first pass raises for an operation that breaks its numeric constraints.\<close>

fun parameter_error :: "Operation \<Rightarrow> error" where
  "parameter_error (OpSketchCircle c) = SketchCircleRadiusNotPositive"
| "parameter_error (OpExtrude e) = ExtrudeLengthNotPositive"
| "parameter_error (OpBaseBox bb) = BaseBoxDimensionsNotPositive"
| "parameter_error (OpCutBox cb) = CutBoxDimensionsNotPositive"
| "parameter_error (OpThroughHole h) =
     (if th_radius h \<le> 0 \<or> th_depth h \<le> 0 then ThroughHoleRadiusDepthNotPositive
      else ThroughHoleAxisInvalid)"

text \<open>The tools cut from a solid, in the order of the cuts.\<close>

fun subtractions :: "workplane \<Rightarrow> workplane list" where
  "subtractions (Cut w t) = subtractions w @ [t]"
| "subtractions w = []"

text \<open>The solid the cuts start from.\<close>

fun base_solid :: "workplane \<Rightarrow> workplane" where
  "base_solid (Cut w t) = base_solid w"
| "base_solid w = w"

text \<open>The direction of the axis named by \<open>ThroughHole.axis\<close>; for y it is the normal of the
  kernel's XZ plane, which points along -Y.\<close>

definition hole_axis :: "string \<Rightarrow> point3" where
  "hole_axis a = (if a = ''z'' then (0, 0, 1) else if a = ''x'' then (1, 0, 0) else (0, - 1, 0))"

text \<open>The export calls, and the calls that change the document.\<close>

fun is_export :: "fc_call \<Rightarrow> bool" where
  "is_export (ExportPageAsPdf page path) = True"
| "is_export (ExportPageAsSvg page path) = True"
| "is_export c = False"

fun mutates_document :: "fc_call \<Rightarrow> bool" where
  "mutates_document (NewDocument title) = False"
| "mutates_document (MkdirParent path) = False"
| "mutates_document (ExportPageAsPdf page path) = False"
| "mutates_document (ExportPageAsSvg page path) = False"
| "mutates_document c = True"

text \<open>The view id of the first dimension that names no view of the spec, and whether a
  dimension names a view of the spec.\<close>

definition first_unknown_view :: "DrawingSpec \<Rightarrow> string option" where
  "first_unknown_view spec =
     map_option ds_view_id
       (find (\<lambda>d. ds_view_id d \<notin> set (map vs_id (views spec))) (dimensions spec))"

definition view_known :: "DrawingSpec \<Rightarrow> DimensionSpec \<Rightarrow> bool" where
  "view_known spec d \<longleftrightarrow> ds_view_id d \<in> set (map vs_id (views spec))"

text \<open>The values stored in \<open>dim.Type\<close>, in the order of the calls.\<close>

fun dimension_types :: "fc_call list \<Rightarrow> string list" where
  "dimension_types [] = []"
| "dimension_types (SetType d t # cs) = t # dimension_types cs"
| "dimension_types (c # cs) = dimension_types cs"

text \<open>The objects added to the document by \<open>doc.addObject\<close>, as type and name, in the
  order of the calls.\<close>

fun added_objects :: "fc_call list \<Rightarrow> (string \<times> string) list" where
  "added_objects [] = []"
| "added_objects (AddObject ty name # cs) = (ty, name) # added_objects cs"
| "added_objects (c # cs) = added_objects cs"




text \<open>The two passes together, from the document \<open>d7\<close> that holds page and template.\<close>

definition passes_done ::
  "obj \<Rightarrow> obj \<Rightarrow> document \<Rightarrow> DrawingSpec \<Rightarrow> document \<times> (drawing_error + unit)" where
  "passes_done page part_obj d7 spec =
     add_dimensions page (snd (add_views page part_obj (views spec) (d7, Map.empty)))
       (dimensions spec)
       (call Recompute (fst (add_views page part_obj (views spec) (d7, Map.empty))))"

section \<open>Example inputs\<close>

text \<open>The block of test\_geometry\_engine.py, a sketch-style solid whose hole circles,
  cut boxes and through holes are interleaved in the list, a box with a hole along x
  whose centre has different y and z, a thick box with a short hole along z, and two
  drawing specs.\<close>

definition block_ops :: "Operation list" where
  "block_ops =
     [OpBaseBox \<lparr>bb_width = 50, bb_depth = 20, bb_height = 10,
                 bb_centered_xy = False, bb_centered_z = False\<rparr>,
      OpCutBox \<lparr>cb_width = 20, cb_depth = 20, cb_height = 5, cb_center = (10, 10, 15 / 2)\<rparr>,
      OpThroughHole \<lparr>th_radius = 3, th_depth = 10, th_axis = ''z'', th_center = (30, 0, 5)\<rparr>]"

definition mixed_ops :: "Operation list" where
  "mixed_ops =
     [OpThroughHole \<lparr>th_radius = 1, th_depth = 3, th_axis = ''y'', th_center = (0, 0, 10)\<rparr>,
      OpSketchCircle \<lparr>sc_radius = 10, sc_is_hole = False\<rparr>,
      OpCutBox \<lparr>cb_width = 2, cb_depth = 2, cb_height = 2, cb_center = (7, 0, 1)\<rparr>,
      OpSketchCircle \<lparr>sc_radius = 5, sc_is_hole = True\<rparr>,
      OpExtrude \<lparr>ex_length = 20\<rparr>,
      OpSketchCircle \<lparr>sc_radius = 4, sc_is_hole = True\<rparr>,
      OpThroughHole \<lparr>th_radius = 2, th_depth = 12, th_axis = ''z'', th_center = (8, 0, 0)\<rparr>,
      OpCutBox \<lparr>cb_width = 1, cb_depth = 1, cb_height = 1, cb_center = (0, 7, 1)\<rparr>]"

definition xhole_ops :: "Operation list" where
  "xhole_ops =
     [OpBaseBox \<lparr>bb_width = 10, bb_depth = 10, bb_height = 10,
                 bb_centered_xy = True, bb_centered_z = True\<rparr>,
      OpThroughHole \<lparr>th_radius = 1, th_depth = 10, th_axis = ''x'', th_center = (0, 1, 2)\<rparr>]"

definition thick_ops :: "Operation list" where
  "thick_ops =
     [OpBaseBox \<lparr>bb_width = 10, bb_depth = 10, bb_height = 100,
                 bb_centered_xy = True, bb_centered_z = False\<rparr>,
      OpThroughHole \<lparr>th_radius = 1, th_depth = 1, th_axis = ''z'', th_center = (0, 0, 50)\<rparr>]"

definition demo_env :: environment where
  "demo_env = \<lparr>FREECAD_PATH = Some ''/opt/freecad/lib'', sys_path = []\<rparr>"

definition demo_views :: "ViewSpec list" where
  "demo_views =
     [\<lparr>vs_id = ''Front'', vs_direction = (0, - 1, 0), vs_is_section = False,
       vs_section_normal = None, vs_scale = None\<rparr>,
      \<lparr>vs_id = ''SectionA'', vs_direction = (1, 0, 0), vs_is_section = True,
       vs_section_normal = None, vs_scale = Some 2\<rparr>]"


definition demo_dangling :: DrawingSpec where
  "demo_dangling =
     \<lparr>page_title = ''Ring'', template_path = ''A4.svg'', views = demo_views,
      dimensions =
        [\<lparr>ds_view_id = ''Front'', ds_kind = ''Radius'', ds_label = ''R'', ds_edges = [''Edge1'']\<rparr>,
         \<lparr>ds_view_id = ''Top'', ds_kind = ''linear'', ds_label = ''L'', ds_edges = []\<rparr>]\<rparr>"

section \<open>The first pass\<close>

lemma classify_append:
  "classify sid b (xs @ ys) =
     (case classify sid b xs of Inl e \<Rightarrow> Inl e | Inr b' \<Rightarrow> classify sid b' ys)"
  by (induction xs arbitrary: b) (auto split: sum.splits)

lemma classify_lists:
  "classify sid b ops = Inr b' \<Longrightarrow>
     sketch_circles b' = sketch_circles b @ circles_of ops \<and>
     cut_boxes b' = cut_boxes b @ cut_boxes_of ops \<and>
     through_holes b' = through_holes b @ through_holes_of ops"
proof (induction ops arbitrary: b)
  case Nil
  then show ?case by simp
next
  case (Cons op ops)
  then show ?case
    by (cases op) (auto split: if_splits sum.splits)
qed

lemma classify_extrude_kept:
  "classify sid b ops = Inr b' \<Longrightarrow> extrude_op b \<noteq> None \<Longrightarrow>
     extrudes_of ops = [] \<and> extrude_op b' = extrude_op b"
proof (induction ops arbitrary: b)
  case Nil
  then show ?case by simp
next
  case (Cons op ops)
  then show ?case
    by (cases op) (auto split: if_splits sum.splits)
qed

lemma classify_extrude:
  "classify sid b ops = Inr b' \<Longrightarrow> extrude_op b = None \<Longrightarrow>
     extrude_op b' = (case extrudes_of ops of [] \<Rightarrow> None | e # es \<Rightarrow> Some e)"
proof (induction ops arbitrary: b)
  case Nil
  then show ?case by simp
next
  case (Cons op ops)
  then show ?case
    by (cases op) (auto split: if_splits sum.splits list.splits dest: classify_extrude_kept)
qed

lemma classify_base_box_kept:
  "classify sid b ops = Inr b' \<Longrightarrow> base_box b \<noteq> None \<Longrightarrow>
     base_boxes_of ops = [] \<and> base_box b' = base_box b"
proof (induction ops arbitrary: b)
  case Nil
  then show ?case by simp
next
  case (Cons op ops)
  then show ?case
    by (cases op) (auto split: if_splits sum.splits)
qed

lemma classify_base_box:
  "classify sid b ops = Inr b' \<Longrightarrow> base_box b = None \<Longrightarrow>
     base_box b' = (case base_boxes_of ops of [] \<Rightarrow> None | x # xs \<Rightarrow> Some x)"
proof (induction ops arbitrary: b)
  case Nil
  then show ?case by simp
next
  case (Cons op ops)
  then show ?case
    by (cases op) (auto split: if_splits sum.splits list.splits dest: classify_base_box_kept)
qed

lemma classify_ok_iff:
  "(\<exists>b'. classify sid b ops = Inr b') \<longleftrightarrow>
     list_all params_ok ops \<and>
     (if extrude_op b = None then length (extrudes_of ops) \<le> 1 else extrudes_of ops = []) \<and>
     (if base_box b = None then length (base_boxes_of ops) \<le> 1 else base_boxes_of ops = [])"
proof (induction ops arbitrary: b)
  case Nil
  then show ?case by simp
next
  case (Cons op ops)
  then show ?case
    by (cases op) (auto simp: not_le)
qed

lemma classify_empty_ok_iff:
  "(\<exists>b. classify sid empty_buckets ops = Inr b) \<longleftrightarrow> passes_classification ops"
  by (simp add: classify_ok_iff passes_classification_def empty_buckets_def)

lemma classify_empty_buckets:
  assumes "classify sid empty_buckets ops = Inr b"
  shows "sketch_circles b = circles_of ops" and "cut_boxes b = cut_boxes_of ops"
    and "through_holes b = through_holes_of ops"
    and "extrude_op b = (case extrudes_of ops of [] \<Rightarrow> None | e # es \<Rightarrow> Some e)"
    and "base_box b = (case base_boxes_of ops of [] \<Rightarrow> None | x # xs \<Rightarrow> Some x)"
  using classify_lists [OF assms] classify_extrude [OF assms] classify_base_box [OF assms]
  by (simp_all add: empty_buckets_def)

lemma list_ex_is_extrude: "list_ex is_extrude ops \<longleftrightarrow> extrudes_of ops \<noteq> []"
  by (induction ops rule: extrudes_of.induct) auto

lemma list_ex_is_base_box: "list_ex is_base_box ops \<longleftrightarrow> base_boxes_of ops \<noteq> []"
  by (induction ops rule: base_boxes_of.induct) auto

lemma list_ex_is_sketch_circle: "list_ex is_sketch_circle ops \<longleftrightarrow> circles_of ops \<noteq> []"
  by (induction ops rule: circles_of.induct) auto

lemma classify_stops:
  "classify sid b0 pre = Inr b \<Longrightarrow> classify_op sid b op = Inl e \<Longrightarrow>
     classify sid b0 (pre @ op # post) = Inl e"
  by (simp add: classify_append)

lemma classify_op_no_attribute_error: "classify_op sid b op \<noteq> Inl AttributeErrorNone"
  by (cases op) auto

lemma classify_no_attribute_error: "classify sid b ops \<noteq> Inl AttributeErrorNone"
  by (induction ops arbitrary: b) (auto simp: classify_op_no_attribute_error split: sum.splits)

section \<open>Construction\<close>

lemma draw_circles_all_holes: "list_all sc_is_hole scs \<Longrightarrow> draw_circles wp scs = wp"
  by (induction scs arbitrary: wp) auto

lemma draw_circles_no_solid:
  "list_all (\<lambda>c. \<not> constructs_solid c) (kernel_calls wp) \<Longrightarrow>
   list_all (\<lambda>c. \<not> constructs_solid c) (kernel_calls (draw_circles wp scs))"
  by (induction scs arbitrary: wp) auto

lemma subtractions_cut_holes:
  "subtractions (cut_holes len solid scs) =
     subtractions solid @ map (hole_tool len) (filter sc_is_hole scs)"
  by (induction scs arbitrary: solid) auto

lemma subtractions_cut_boxes:
  "subtractions (apply_cut_boxes solid cbs) = subtractions solid @ map cut_box_tool cbs"
  by (induction cbs arbitrary: solid) auto

lemma subtractions_through_holes:
  "subtractions (apply_through_holes solid hs) = subtractions solid @ map through_hole_tool hs"
  by (induction hs arbitrary: solid) auto

lemma build_solid_classify_error:
  "ops \<noteq> [] \<Longrightarrow> classify sid empty_buckets ops = Inl e \<Longrightarrow>
     build_solid \<lparr>spec_id = sid, operations = ops\<rparr> = ([], Inl e)"
  by (simp add: build_solid_def)

lemma build_solid_fails_unless_passes:
  "\<not> passes_classification (operations spec) \<Longrightarrow>
     fst (build_solid spec) = [] \<and> isl (snd (build_solid spec))"
  using classify_empty_ok_iff [of "spec_id spec" "operations spec"]
  by (auto simp: build_solid_def split: sum.splits)

lemma build_solid_mixed:
  assumes "passes_classification ops" "base_boxes_of ops \<noteq> []"
    "circles_of ops \<noteq> [] \<or> extrudes_of ops \<noteq> []"
  shows "build_solid \<lparr>spec_id = sid, operations = ops\<rparr> = ([], Inl (MixedBaseStyle sid))"
proof -
  from assms(1) obtain b where b: "classify sid empty_buckets ops = Inr b"
    using classify_empty_ok_iff by blast
  have "ops \<noteq> []" using assms(2) by auto
  moreover have "base_box b \<noteq> None"
    using classify_empty_buckets(5) [OF b] assms(2) by (simp split: list.splits)
  moreover have "sketch_circles b \<noteq> [] \<or> extrude_op b \<noteq> None"
    using classify_empty_buckets(1,4) [OF b] assms(3) by (auto split: list.splits)
  ultimately show ?thesis using b by (simp add: build_solid_def)
qed

lemma build_solid_no_base:
  assumes "passes_classification ops" "ops \<noteq> []" "base_boxes_of ops = []" "extrudes_of ops = []"
  shows "build_solid \<lparr>spec_id = sid, operations = ops\<rparr> = ([], Inl (NoBaseStyle sid))"
proof -
  from assms(1) obtain b where b: "classify sid empty_buckets ops = Inr b"
    using classify_empty_ok_iff by blast
  have "base_box b = None" "extrude_op b = None"
    using classify_empty_buckets(4,5) [OF b] assms(3,4) by simp_all
  then show ?thesis using b assms(2) by (simp add: build_solid_def)
qed

lemma build_solid_failure_no_solid:
  "snd (build_solid spec) = Inl e \<Longrightarrow>
     list_all (\<lambda>c. \<not> constructs_solid c) (fst (build_solid spec))"
  using draw_circles_no_solid [of "Workplane XY"]
  by (auto simp: build_solid_def construct_def Let_def split: sum.splits option.splits if_splits)

lemma build_solid_no_attribute_error: "snd (build_solid spec) \<noteq> Inl AttributeErrorNone"
  by (auto simp: build_solid_def construct_def Let_def classify_no_attribute_error
      split: sum.splits option.splits if_splits)

lemma build_solid_Inr_passes:
  "snd (build_solid \<lparr>spec_id = sid, operations = ops\<rparr>) = Inr solid \<Longrightarrow> passes_classification ops"
  using classify_empty_ok_iff [of sid ops]
  by (auto simp: build_solid_def split: if_splits sum.splits)

lemma through_holes_of_params:
  "list_all params_ok ops \<Longrightarrow> h \<in> set (through_holes_of ops) \<Longrightarrow>
     0 < th_radius h \<and> 0 < th_depth h \<and> th_axis h \<in> {''x'', ''y'', ''z''}"
  by (induction ops rule: through_holes_of.induct) auto

lemma build_solid_subtractions:
  assumes "snd (build_solid \<lparr>spec_id = sid, operations = ops\<rparr>) = Inr solid"
  shows "subtractions solid =
           concat (map (\<lambda>ex. map (hole_tool (ex_length ex)) (filter sc_is_hole (circles_of ops)))
                    (extrudes_of ops))
           @ map cut_box_tool (cut_boxes_of ops)
           @ map through_hole_tool (through_holes_of ops)"
proof -
  from assms obtain b where b: "classify sid empty_buckets ops = Inr b"
    by (auto simp: build_solid_def split: if_splits sum.splits)
  then have pc: "passes_classification ops" using classify_empty_ok_iff by blast
  note bk = classify_empty_buckets [OF b]
  show ?thesis
  proof (cases "base_box b")
    case (Some bb)
    with assms b have "sketch_circles b = []" "extrude_op b = None"
      by (auto simp: build_solid_def split: if_splits)
    then have "circles_of ops = []" "extrudes_of ops = []"
      using bk(1,4) by (simp_all split: list.splits)
    moreover from assms b Some have "solid = apply_modifiers b (base_box_solid bb)"
      by (auto simp: build_solid_def construct_def Let_def split: if_splits)
    ultimately show ?thesis
      using bk(2,3)
      by (simp add: apply_modifiers_def subtractions_through_holes subtractions_cut_boxes
          base_box_solid_def)
  next
    case None
    with assms b obtain ex where ex: "extrude_op b = Some ex"
      by (auto simp: build_solid_def split: if_splits)
    then have "extrudes_of ops = [ex]"
      using bk(4) pc by (auto simp: passes_classification_def split: list.splits)
    moreover from assms b None ex have
      "solid = apply_modifiers b (cut_holes (ex_length ex)
          (ExtrudeBy (draw_circles (Workplane XY) (sketch_circles b)) (ex_length ex) False)
          (sketch_circles b))"
      by (auto simp: build_solid_def construct_def Let_def split: if_splits)
    ultimately show ?thesis
      using bk(1,2,3)
      by (simp add: apply_modifiers_def subtractions_through_holes subtractions_cut_boxes
          subtractions_cut_holes)
  qed
qed

lemma build_solid_calls:
  "snd (build_solid spec) = Inr solid \<Longrightarrow> fst (build_solid spec) = kernel_calls solid"
  by (auto simp: build_solid_def construct_def Let_def split: sum.splits option.splits if_splits)

section \<open>Geometry of the tools\<close>

lemma cut_box_tool_bounds:
  "box_bounds (cut_box_tool cb) =
     Some (centred_box (cb_center cb) (cb_width cb) (cb_depth cb) (cb_height cb))"
  by (cases "cb_center cb") (simp add: cut_box_tool_def centred_box_def)

lemma through_hole_cylinder:
  assumes "th_axis h \<in> {''x'', ''y'', ''z''}" and "th_center h = (cx, cy, cz)"
  shows "cylinder_of (through_hole_tool h) =
     Some (Cylinder
        (if th_axis h = ''z'' then (cx, cy, 0) else if th_axis h = ''x'' then (0, cz, cy)
         else (cx, 0, cz))
        (if th_axis h = ''z'' then (0, 0, 1) else if th_axis h = ''x'' then (1, 0, 0)
         else (0, - 1, 0))
        (th_radius h) (- (th_depth h * 2)) (th_depth h * 2))"
  using assms by (auto simp: through_hole_tool_def)

text \<open>The axis of a through-hole tool passes through the given centre for the axes y and
  z; for the axis x it does so only when the y and z coordinates of the centre agree.\<close>

lemma through_hole_on_axis:
  assumes "th_axis h \<in> {''x'', ''y'', ''z''}" and "th_center h = (cx, cy, cz)"
    and "cylinder_of (through_hole_tool h) = Some c"
  shows "on_axis c (th_center h) \<longleftrightarrow> th_axis h \<noteq> ''x'' \<or> cy = cz"
  using assms through_hole_cylinder [OF assms(1,2)]
  by (auto simp: on_axis_def)

section \<open>Lower case and casings\<close>







section \<open>The passes of generate\_drawing\<close>

lemma dimension_types_append:
  "dimension_types (xs @ ys) = dimension_types xs @ dimension_types ys"
  by (induction xs rule: dimension_types.induct) auto

lemma add_view_map:
  "snd (add_view page part_obj v st) k =
     (if k = vs_id v then Some (n_objects (fst st)) else snd st k)"
  by (cases st) (simp add: add_view_def add_object_def Let_def)

lemma add_view_calls:
  "\<exists>cs. calls (fst (add_view page part_obj v st)) = calls (fst st) @ cs \<and>
        list_all (\<lambda>c. \<not> is_export c) cs \<and> dimension_types cs = []"
  by (cases st)
    (auto simp: add_view_def add_object_def call_def Let_def split: option.splits)

lemma add_views_known:
  "snd (add_views page part_obj vs st) k = None \<longleftrightarrow>
     snd st k = None \<and> k \<notin> set (map vs_id vs)"
  by (induction vs arbitrary: st) (auto simp: add_view_map)

lemma add_views_calls:
  "\<exists>cs. calls (fst (add_views page part_obj vs st)) = calls (fst st) @ cs \<and>
        list_all (\<lambda>c. \<not> is_export c) cs \<and> dimension_types cs = []"
proof (induction vs arbitrary: st)
  case Nil
  then show ?case by simp
next
  case (Cons v vs)
  obtain cs1 where 1: "calls (fst (add_view page part_obj v st)) = calls (fst st) @ cs1"
    "list_all (\<lambda>c. \<not> is_export c) cs1" "dimension_types cs1 = []"
    using add_view_calls by blast
  obtain cs2 where 2: "calls (fst (add_views page part_obj vs (add_view page part_obj v st))) =
      calls (fst (add_view page part_obj v st)) @ cs2"
    "list_all (\<lambda>c. \<not> is_export c) cs2" "dimension_types cs2 = []"
    using Cons.IH by blast
  show ?case
    using 1 2 by (intro exI [of _ "cs1 @ cs2"]) (simp add: dimension_types_append)
qed

lemma add_dimensions_result:
  "snd (add_dimensions page vo ds doc) =
     (case find (\<lambda>d. vo (ds_view_id d) = None) ds of
        None \<Rightarrow> Inr ()
      | Some d \<Rightarrow> Inl (UnknownViewId (ds_view_id d)))"
  by (induction ds arbitrary: doc)
    (auto simp: add_object_def Let_def split: option.splits)

lemma add_dimensions_calls:
  "\<exists>cs. calls (fst (add_dimensions page vo ds doc)) = calls doc @ cs \<and>
        list_all (\<lambda>c. \<not> is_export c) cs \<and>
        dimension_types cs =
          map (\<lambda>d. dimension_type (ds_kind d)) (takeWhile (\<lambda>d. vo (ds_view_id d) \<noteq> None) ds)"
proof (induction ds arbitrary: doc)
  case Nil
  then show ?case by simp
next
  case (Cons d ds)
  show ?case
  proof (cases "vo (ds_view_id d)")
    case None
    then show ?thesis by simp
  next
    case (Some view_obj)
    define d5 where "d5 =
      call (PageAddView page (n_objects doc))
        (call (SetFormatSpec (n_objects doc) (ds_label d))
          (call (SetReferences2D (n_objects doc)
                  (map (\<lambda>edge_name. (view_obj, edge_name)) (ds_edges d)))
            (call (SetType (n_objects doc) (dimension_type (ds_kind d)))
              (snd (add_object ''TechDraw::DrawViewDimension'' (''Dim_'' @ ds_view_id d) doc)))))"
    have step: "add_dimensions page vo (d # ds) doc = add_dimensions page vo ds d5"
      using Some by (simp add: d5_def add_object_def Let_def)
    have c5: "calls d5 = calls doc @
        [AddObject ''TechDraw::DrawViewDimension'' (''Dim_'' @ ds_view_id d),
         SetType (n_objects doc) (dimension_type (ds_kind d)),
         SetReferences2D (n_objects doc) (map (\<lambda>edge_name. (view_obj, edge_name)) (ds_edges d)),
         SetFormatSpec (n_objects doc) (ds_label d),
         PageAddView page (n_objects doc)]"
      by (simp add: d5_def add_object_def call_def)
    obtain cs where cs: "calls (fst (add_dimensions page vo ds d5)) = calls d5 @ cs"
      "list_all (\<lambda>c. \<not> is_export c) cs"
      "dimension_types cs =
          map (\<lambda>d. dimension_type (ds_kind d)) (takeWhile (\<lambda>d. vo (ds_view_id d) \<noteq> None) ds)"
      using Cons.IH by blast
    show ?thesis
      unfolding step
      using cs c5 Some
      by (intro exI [of _ "drop (length (calls doc)) (calls d5) @ cs"])
        (simp add: dimension_types_append)
  qed
qed

lemma page_setup_calls:
  "page_setup solid spec = (part_obj, page, d7) \<Longrightarrow>
     list_all (\<lambda>c. \<not> is_export c) (calls d7) \<and> dimension_types (calls d7) = [] \<and>
     list_ex mutates_document (calls d7)"
  by (auto simp: page_setup_def add_object_def call_def Let_def)

lemma generate_drawing_unfold:
  assumes "ensure_freecad_on_path env = Inr env'" and "page_setup solid spec = (part_obj, page, d7)"
  shows "generate_drawing env solid spec output_pdf output_svg =
     (case passes_done page part_obj d7 spec of
        (d10, Inl e) \<Rightarrow> (calls d10, Inl e)
      | (d10, Inr u) \<Rightarrow>
          (calls (export_page page output_pdf output_svg (call Recompute d10)), Inr ()))"
  using assms
  by (simp add: generate_drawing_def passes_done_def split: prod.splits)

lemma view_known_eq:
  "(\<lambda>d. snd (add_views page part_obj (views spec) (d7, Map.empty)) (ds_view_id d) \<noteq> None) =
     view_known spec"
  by (simp add: fun_eq_iff add_views_known view_known_def)

lemma passes_done_result:
  "snd (passes_done page part_obj d7 spec) =
     (case first_unknown_view spec of None \<Rightarrow> Inr () | Some v \<Rightarrow> Inl (UnknownViewId v))"
  by (simp add: passes_done_def add_dimensions_result first_unknown_view_def add_views_known
      split: option.splits)

lemma passes_done_calls:
  "\<exists>cs. calls (fst (passes_done page part_obj d7 spec)) = calls d7 @ cs \<and>
        list_all (\<lambda>c. \<not> is_export c) cs \<and>
        dimension_types cs =
          map (\<lambda>d. dimension_type (ds_kind d)) (takeWhile (view_known spec) (dimensions spec))"
proof -
  let ?st = "add_views page part_obj (views spec) (d7, Map.empty)"
  obtain cs1 where cs1: "calls (fst ?st) = calls d7 @ cs1"
    "list_all (\<lambda>c. \<not> is_export c) cs1" "dimension_types cs1 = []"
    using add_views_calls [of page part_obj "views spec" "(d7, Map.empty)"] by auto
  obtain cs2 where cs2: "calls (fst (passes_done page part_obj d7 spec)) =
      calls (call Recompute (fst ?st)) @ cs2"
    "list_all (\<lambda>c. \<not> is_export c) cs2"
    "dimension_types cs2 =
       map (\<lambda>d. dimension_type (ds_kind d))
         (takeWhile (\<lambda>d. snd ?st (ds_view_id d) \<noteq> None) (dimensions spec))"
    unfolding passes_done_def using add_dimensions_calls by blast
  note t = cs2(3) [unfolded view_known_eq]
  show ?thesis
    using cs1 cs2(1,2) t
    by (intro exI [of _ "cs1 @ Recompute # cs2"]) (simp add: call_def dimension_types_append)
qed

lemma ensure_freecad_ok:
  "FREECAD_PATH env = Some p \<Longrightarrow> p \<noteq> [] \<Longrightarrow> \<exists>env'. ensure_freecad_on_path env = Inr env'"
  by (simp add: ensure_freecad_on_path_def)

lemma generate_drawing_dangling:
  assumes "first_unknown_view spec = Some v"
  shows "isl (snd (generate_drawing env solid spec output_pdf output_svg))"
    and "list_all (\<lambda>c. \<not> is_export c) (fst (generate_drawing env solid spec output_pdf output_svg))"
    and "FREECAD_PATH env = Some p \<Longrightarrow> p \<noteq> [] \<Longrightarrow>
      snd (generate_drawing env solid spec output_pdf output_svg) = Inl (UnknownViewId v) \<and>
      list_ex mutates_document (fst (generate_drawing env solid spec output_pdf output_svg))"
proof -
  obtain part_obj page d7 where ps: "page_setup solid spec = (part_obj, page, d7)"
    by (cases "page_setup solid spec")
  let ?pd = "passes_done page part_obj d7 spec"
  have r: "snd ?pd = Inl (UnknownViewId v)"
    using assms by (simp add: passes_done_result)
  obtain cs where cs: "calls (fst ?pd) = calls d7 @ cs" "list_all (\<lambda>c. \<not> is_export c) cs"
    using passes_done_calls by blast
  have log: "list_all (\<lambda>c. \<not> is_export c) (calls (fst ?pd))"
    "list_ex mutates_document (calls (fst ?pd))"
    using cs page_setup_calls [OF ps] by simp_all
  have ok: "generate_drawing env solid spec output_pdf output_svg =
      (calls (fst ?pd), Inl (UnknownViewId v))" if "ensure_freecad_on_path env = Inr env'" for env'
    using r by (cases ?pd) (simp add: generate_drawing_unfold [OF that ps])
  show "isl (snd (generate_drawing env solid spec output_pdf output_svg))"
    using ok by (cases "ensure_freecad_on_path env") (simp_all add: generate_drawing_def)
  show "list_all (\<lambda>c. \<not> is_export c) (fst (generate_drawing env solid spec output_pdf output_svg))"
    using ok log by (cases "ensure_freecad_on_path env") (simp_all add: generate_drawing_def)
  show "snd (generate_drawing env solid spec output_pdf output_svg) = Inl (UnknownViewId v) \<and>
      list_ex mutates_document (fst (generate_drawing env solid spec output_pdf output_svg))"
    if "FREECAD_PATH env = Some p" "p \<noteq> []"
    using ensure_freecad_ok [OF that] ok log by auto
qed


lemma list_ex_find: "list_ex P xs \<Longrightarrow> \<exists>x. find P xs = Some x"
  by (induction xs) auto

section \<open>The base solid, the failure log and the objects of the document\<close>

lemma draw_circles_foldl:
  "draw_circles wp scs =
     foldl (\<lambda>w sc. Circle w (sc_radius sc)) wp (filter (\<lambda>sc. \<not> sc_is_hole sc) scs)"
  by (induction scs arbitrary: wp) auto

lemma draw_circles_objects_empty:
  "objects_empty (draw_circles wp scs) \<longleftrightarrow> objects_empty wp \<and> list_all sc_is_hole scs"
  by (induction scs arbitrary: wp) auto

lemma foldl_Cut_base: "foldl Cut (base_solid w) (subtractions w) = w"
  by (induction w) auto

lemma base_solid_cut_holes: "base_solid (cut_holes len solid scs) = base_solid solid"
  by (induction scs arbitrary: solid) auto

lemma base_solid_cut_boxes: "base_solid (apply_cut_boxes solid cbs) = base_solid solid"
  by (induction cbs arbitrary: solid) auto

lemma base_solid_through_holes: "base_solid (apply_through_holes solid hs) = base_solid solid"
  by (induction hs arbitrary: solid) auto

lemma build_solid_base:
  assumes "snd (build_solid \<lparr>spec_id = sid, operations = ops\<rparr>) = Inr solid"
  shows "(\<exists>bb. base_boxes_of ops = [bb] \<and> circles_of ops = [] \<and> extrudes_of ops = [] \<and>
            base_solid solid =
              Box (Workplane XY) (bb_width bb) (bb_depth bb) (bb_height bb)
                (bb_centered_xy bb, bb_centered_xy bb, bb_centered_z bb))
       \<or> (\<exists>ex. base_boxes_of ops = [] \<and> extrudes_of ops = [ex] \<and>
            base_solid solid =
              ExtrudeBy
                (foldl (\<lambda>w sc. Circle w (sc_radius sc)) (Workplane XY)
                   (filter (\<lambda>sc. \<not> sc_is_hole sc) (circles_of ops)))
                (ex_length ex) False)"
proof -
  from assms obtain b where b: "classify sid empty_buckets ops = Inr b"
    by (auto simp: build_solid_def split: if_splits sum.splits)
  then have pc: "passes_classification ops" using classify_empty_ok_iff by blast
  note bk = classify_empty_buckets [OF b]
  show ?thesis
  proof (cases "base_box b")
    case (Some bb)
    with assms b have e: "sketch_circles b = []" "extrude_op b = None"
      by (auto simp: build_solid_def split: if_splits)
    have 1: "circles_of ops = []" "extrudes_of ops = []"
      using e bk(1,4) by (simp_all split: list.splits)
    have 2: "base_boxes_of ops = [bb]"
      using Some bk(5) pc by (auto simp: passes_classification_def split: list.splits)
    from assms b Some have "solid = apply_modifiers b (base_box_solid bb)"
      by (auto simp: build_solid_def construct_def Let_def split: if_splits)
    then have "base_solid solid =
        Box (Workplane XY) (bb_width bb) (bb_depth bb) (bb_height bb)
          (bb_centered_xy bb, bb_centered_xy bb, bb_centered_z bb)"
      by (simp add: apply_modifiers_def base_solid_through_holes base_solid_cut_boxes
          base_box_solid_def)
    with 1 2 show ?thesis by blast
  next
    case None
    with assms b obtain ex where ex: "extrude_op b = Some ex"
      by (auto simp: build_solid_def split: if_splits)
    have 1: "extrudes_of ops = [ex]"
      using ex bk(4) pc by (auto simp: passes_classification_def split: list.splits)
    have 2: "base_boxes_of ops = []"
      using None bk(5) by (simp split: list.splits)
    from assms b None ex have
      "solid = apply_modifiers b (cut_holes (ex_length ex)
          (ExtrudeBy (draw_circles (Workplane XY) (sketch_circles b)) (ex_length ex) False)
          (sketch_circles b))"
      by (auto simp: build_solid_def construct_def Let_def split: if_splits)
    then have "base_solid solid =
        ExtrudeBy
          (foldl (\<lambda>w sc. Circle w (sc_radius sc)) (Workplane XY)
             (filter (\<lambda>sc. \<not> sc_is_hole sc) (circles_of ops)))
          (ex_length ex) False"
      using bk(1)
      by (simp add: apply_modifiers_def base_solid_through_holes base_solid_cut_boxes
          base_solid_cut_holes draw_circles_foldl)
    with 1 2 show ?thesis by blast
  qed
qed

lemma through_hole_tool_shape:
  assumes "th_axis h \<in> {''x'', ''y'', ''z''}"
  shows "\<exists>c. cylinder_of (through_hole_tool h) = Some c \<and> cyl_dir c = hole_axis (th_axis h) \<and>
           cyl_radius c = th_radius h \<and> cyl_lo c = - (2 * th_depth h) \<and>
           cyl_hi c = 2 * th_depth h"
proof -
  obtain cx cy cz where c: "th_center h = (cx, cy, cz)" by (cases "th_center h")
  show ?thesis
    using assms by (auto simp: through_hole_cylinder [OF assms c] hole_axis_def)
qed

lemma classify_op_no_positive_geometry: "classify_op sid b op \<noteq> Inl (NoPositiveGeometry x)"
  by (cases op) auto

lemma classify_no_positive_geometry: "classify sid b ops \<noteq> Inl (NoPositiveGeometry x)"
  by (induction ops arbitrary: b)
    (auto simp: classify_op_no_positive_geometry split: sum.splits)

lemma build_solid_failure_log:
  assumes "snd (build_solid s) = Inl e"
  shows "fst (build_solid s) =
           (if e = NoPositiveGeometry (spec_id s) then [K_Workplane XY] else [])"
proof (cases "operations s = []")
  case True
  with assms show ?thesis by (auto simp: build_solid_def)
next
  case False
  show ?thesis
  proof (cases "classify (spec_id s) empty_buckets (operations s)")
    case (Inl e')
    with assms False show ?thesis
      using classify_no_positive_geometry [of "spec_id s" empty_buckets "operations s" "spec_id s"]
      by (auto simp: build_solid_def)
  next
    case (Inr b)
    have dc: "objects_empty (draw_circles (Workplane XY) (sketch_circles b)) \<Longrightarrow>
        draw_circles (Workplane XY) (sketch_circles b) = Workplane XY"
      by (simp add: draw_circles_objects_empty draw_circles_all_holes)
    from assms False Inr show ?thesis
      using dc
      by (auto simp: build_solid_def construct_def Let_def split: if_splits option.splits)
  qed
qed

lemma added_objects_append:
  "added_objects (xs @ ys) = added_objects xs @ added_objects ys"
  by (induction xs rule: added_objects.induct) auto

lemma add_view_added:
  "added_objects (calls (fst (add_view page part_obj v st))) =
     added_objects (calls (fst st)) @ [(''TechDraw::DrawViewPart'', vs_id v)]"
  by (cases st)
    (auto simp: add_view_def add_object_def call_def Let_def added_objects_append
      split: option.splits)

lemma add_views_added:
  "added_objects (calls (fst (add_views page part_obj vs st))) =
     added_objects (calls (fst st)) @ map (\<lambda>v. (''TechDraw::DrawViewPart'', vs_id v)) vs"
  by (induction vs arbitrary: st) (simp_all add: add_view_added)

lemma add_dimensions_added:
  "added_objects (calls (fst (add_dimensions page vo ds doc))) =
     added_objects (calls doc) @
     map (\<lambda>d. (''TechDraw::DrawViewDimension'', ''Dim_'' @ ds_view_id d))
       (takeWhile (\<lambda>d. vo (ds_view_id d) \<noteq> None) ds)"
  by (induction ds arbitrary: doc)
    (auto simp: add_object_def call_def Let_def added_objects_append split: option.splits)

lemma page_setup_added:
  "page_setup solid spec = (part_obj, page, d7) \<Longrightarrow>
     take 1 (calls d7) = [NewDocument (page_title spec)] \<and>
     added_objects (calls d7) =
       [(''Part::Feature'', ''Body''), (''TechDraw::DrawPage'', ''Page''),
        (''TechDraw::DrawSVGTemplate'', ''Template'')]"
  by (auto simp: page_setup_def add_object_def call_def Let_def)

lemma passes_done_added:
  "added_objects (calls (fst (passes_done page part_obj d7 spec))) =
     added_objects (calls d7) @
     map (\<lambda>v. (''TechDraw::DrawViewPart'', vs_id v)) (views spec) @
     map (\<lambda>d. (''TechDraw::DrawViewDimension'', ''Dim_'' @ ds_view_id d))
       (takeWhile (view_known spec) (dimensions spec))"
  unfolding passes_done_def add_dimensions_added view_known_eq
  by (simp add: call_def added_objects_append add_views_added)

lemma generate_drawing_dangling_log:
  assumes "first_unknown_view spec = Some v" and "FREECAD_PATH env = Some p" and "p \<noteq> []"
  shows "snd (generate_drawing env solid spec output_pdf output_svg) = Inl (UnknownViewId v)"
    and "take 1 (fst (generate_drawing env solid spec output_pdf output_svg)) =
           [NewDocument (page_title spec)]"
    and "added_objects (fst (generate_drawing env solid spec output_pdf output_svg)) =
           [(''Part::Feature'', ''Body''), (''TechDraw::DrawPage'', ''Page''),
            (''TechDraw::DrawSVGTemplate'', ''Template'')] @
           map (\<lambda>v. (''TechDraw::DrawViewPart'', vs_id v)) (views spec) @
           map (\<lambda>d. (''TechDraw::DrawViewDimension'', ''Dim_'' @ ds_view_id d))
             (takeWhile (view_known spec) (dimensions spec))"
proof -
  obtain env' where env': "ensure_freecad_on_path env = Inr env'"
    using ensure_freecad_ok [OF assms(2,3)] by blast
  obtain part_obj page d7 where ps: "page_setup solid spec = (part_obj, page, d7)"
    by (cases "page_setup solid spec")
  let ?pd = "passes_done page part_obj d7 spec"
  have r: "snd ?pd = Inl (UnknownViewId v)"
    using assms(1) by (simp add: passes_done_result)
  have g: "generate_drawing env solid spec output_pdf output_svg =
      (calls (fst ?pd), Inl (UnknownViewId v))"
    using r by (cases ?pd) (simp add: generate_drawing_unfold [OF env' ps])
  obtain cs where cs: "calls (fst ?pd) = calls d7 @ cs"
    using passes_done_calls by blast
  note s = page_setup_added [OF ps]
  show "snd (generate_drawing env solid spec output_pdf output_svg) = Inl (UnknownViewId v)"
    by (simp add: g)
  have "calls d7 \<noteq> []" using s by auto
  then show "take 1 (fst (generate_drawing env solid spec output_pdf output_svg)) =
           [NewDocument (page_title spec)]"
    using s by (cases "calls d7") (simp_all add: g cs)
  show "added_objects (fst (generate_drawing env solid spec output_pdf output_svg)) =
           [(''Part::Feature'', ''Body''), (''TechDraw::DrawPage'', ''Page''),
            (''TechDraw::DrawSVGTemplate'', ''Template'')] @
           map (\<lambda>v. (''TechDraw::DrawViewPart'', vs_id v)) (views spec) @
           map (\<lambda>d. (''TechDraw::DrawViewDimension'', ''Dim_'' @ ds_view_id d))
             (takeWhile (view_known spec) (dimensions spec))"
    using s by (simp add: g passes_done_added)
qed

section \<open>Evaluation of the examples\<close>

lemmas build_defs = build_solid_def construct_def empty_buckets_def apply_modifiers_def
  base_box_solid_def cut_box_tool_def through_hole_tool_def hole_tool_def

lemmas drawing_defs = generate_drawing_def ensure_freecad_on_path_def page_setup_def
  add_view_def add_object_def call_def export_page_def Let_def

section \<open>The properties\<close>

text \<open>
  C1 (as amended). A validation failure of \<open>build_solid\<close> is raised before any kernel call
  that constructs a solid: no call has been made, except that the empty XY workplane has
  been created when the error is the no-positive-geometry one. A dimension that names an
  unknown view makes \<open>generate_drawing\<close> raise with no export call made and nothing
  returned; with FreeCAD on the path the error is raised in the dimension pass, after the
  document has been created and the body, the page, the template, every view and the
  dimensions before the first unknown one have been added to it.
\<close>

theorem C1_failure_before_solid_and_export:
  "(snd (build_solid s) = Inl e \<longrightarrow>
      fst (build_solid s) =
        (if e = NoPositiveGeometry (spec_id s) then [K_Workplane XY] else []) \<and>
      list_all (\<lambda>c. \<not> constructs_solid c) (fst (build_solid s)))
   \<and> (list_ex (\<lambda>d. ds_view_id d \<notin> set (map vs_id (views spec))) (dimensions spec) \<longrightarrow>
        isl (snd (generate_drawing env solid spec output_pdf output_svg)) \<and>
        list_all (\<lambda>c. \<not> is_export c)
          (fst (generate_drawing env solid spec output_pdf output_svg)) \<and>
        (\<forall>p. FREECAD_PATH env = Some p \<and> p \<noteq> [] \<longrightarrow>
           (\<exists>v. first_unknown_view spec = Some v \<and>
              snd (generate_drawing env solid spec output_pdf output_svg) =
                Inl (UnknownViewId v)) \<and>
           take 1 (fst (generate_drawing env solid spec output_pdf output_svg)) =
             [NewDocument (page_title spec)] \<and>
           added_objects (fst (generate_drawing env solid spec output_pdf output_svg)) =
             [(''Part::Feature'', ''Body''), (''TechDraw::DrawPage'', ''Page''),
              (''TechDraw::DrawSVGTemplate'', ''Template'')] @
             map (\<lambda>v. (''TechDraw::DrawViewPart'', vs_id v)) (views spec) @
             map (\<lambda>d. (''TechDraw::DrawViewDimension'', ''Dim_'' @ ds_view_id d))
               (takeWhile (view_known spec) (dimensions spec)) \<and>
           list_ex mutates_document
             (fst (generate_drawing env solid spec output_pdf output_svg))))"
proof (intro conjI impI allI)
  assume a: "snd (build_solid s) = Inl e"
  show "fst (build_solid s) =
        (if e = NoPositiveGeometry (spec_id s) then [K_Workplane XY] else [])"
    using a by (rule build_solid_failure_log)
  show "list_all (\<lambda>c. \<not> constructs_solid c) (fst (build_solid s))"
    using a by (rule build_solid_failure_no_solid)
next
  assume "list_ex (\<lambda>d. ds_view_id d \<notin> set (map vs_id (views spec))) (dimensions spec)"
  then obtain v where v: "first_unknown_view spec = Some v"
    using list_ex_find by (fastforce simp: first_unknown_view_def)
  note d = generate_drawing_dangling [OF v]
  show "isl (snd (generate_drawing env solid spec output_pdf output_svg))"
    by (rule d(1))
  show "list_all (\<lambda>c. \<not> is_export c)
          (fst (generate_drawing env solid spec output_pdf output_svg))"
    by (rule d(2))
  fix p assume p: "FREECAD_PATH env = Some p \<and> p \<noteq> []"
  note l = generate_drawing_dangling_log [OF v, of env p]
  show "\<exists>v. first_unknown_view spec = Some v \<and>
              snd (generate_drawing env solid spec output_pdf output_svg) =
                Inl (UnknownViewId v)"
    using v l(1) p by blast
  show "take 1 (fst (generate_drawing env solid spec output_pdf output_svg)) =
             [NewDocument (page_title spec)]"
    using l(2) p by blast
  show "added_objects (fst (generate_drawing env solid spec output_pdf output_svg)) =
             [(''Part::Feature'', ''Body''), (''TechDraw::DrawPage'', ''Page''),
              (''TechDraw::DrawSVGTemplate'', ''Template'')] @
             map (\<lambda>v. (''TechDraw::DrawViewPart'', vs_id v)) (views spec) @
             map (\<lambda>d. (''TechDraw::DrawViewDimension'', ''Dim_'' @ ds_view_id d))
               (takeWhile (view_known spec) (dimensions spec))"
    using l(3) p by blast
  show "list_ex mutates_document
             (fst (generate_drawing env solid spec output_pdf output_svg))"
    using d(3) p by blast
qed

text \<open>C1, at a sketch without positive geometry, at a spec with two Extrudes, and at the
  drawing with the unknown view \<open>Top\<close>.\<close>

theorem C1_witness:
  "fst (build_solid \<lparr>spec_id = ''s'', operations =
        [OpSketchCircle \<lparr>sc_radius = 5, sc_is_hole = True\<rparr>, OpExtrude \<lparr>ex_length = 20\<rparr>]\<rparr>)
     = [K_Workplane XY]
   \<and> fst (build_solid \<lparr>spec_id = ''s'', operations =
        [OpExtrude \<lparr>ex_length = 20\<rparr>, OpExtrude \<lparr>ex_length = 20\<rparr>]\<rparr>) = []
   \<and> snd (generate_drawing demo_env (Workplane XY) demo_dangling ''out/a.pdf'' None)
       = Inl (UnknownViewId ''Top'')
   \<and> list_all (\<lambda>c. \<not> is_export c)
       (fst (generate_drawing demo_env (Workplane XY) demo_dangling ''out/a.pdf'' None))
   \<and> added_objects
       (fst (generate_drawing demo_env (Workplane XY) demo_dangling ''out/a.pdf'' None)) =
       [(''Part::Feature'', ''Body''), (''TechDraw::DrawPage'', ''Page''),
        (''TechDraw::DrawSVGTemplate'', ''Template''),
        (''TechDraw::DrawViewPart'', ''Front''), (''TechDraw::DrawViewPart'', ''SectionA''),
        (''TechDraw::DrawViewDimension'', ''Dim_Front'')]"
proof -
  have f: "snd (build_solid \<lparr>spec_id = ''s'', operations =
        [OpSketchCircle \<lparr>sc_radius = 5, sc_is_hole = True\<rparr>, OpExtrude \<lparr>ex_length = 20\<rparr>]\<rparr>)
      = Inl (NoPositiveGeometry ''s'')"
    "snd (build_solid \<lparr>spec_id = ''s'', operations =
        [OpExtrude \<lparr>ex_length = 20\<rparr>, OpExtrude \<lparr>ex_length = 20\<rparr>]\<rparr>)
      = Inl (MultipleExtrude ''s'')"
    by (simp_all add: build_defs)
  have e: "FREECAD_PATH demo_env = Some ''/opt/freecad/lib''"
    "list_ex (\<lambda>d. ds_view_id d \<notin> set (map vs_id (views demo_dangling)))
       (dimensions demo_dangling)"
    "first_unknown_view demo_dangling = Some ''Top''"
    "takeWhile (view_known demo_dangling) (dimensions demo_dangling) =
       [\<lparr>ds_view_id = ''Front'', ds_kind = ''Radius'', ds_label = ''R'', ds_edges = [''Edge1'']\<rparr>]"
    "views demo_dangling = demo_views"
    by (simp_all add: demo_env_def demo_dangling_def demo_views_def first_unknown_view_def
        view_known_def)
  note a = C1_failure_before_solid_and_export [where s = "\<lparr>spec_id = ''s'', operations =
        [OpSketchCircle \<lparr>sc_radius = 5, sc_is_hole = True\<rparr>, OpExtrude \<lparr>ex_length = 20\<rparr>]\<rparr>"
      and e = "NoPositiveGeometry ''s''" and env = demo_env and solid = "Workplane XY"
      and spec = demo_dangling and output_pdf = "''out/a.pdf''" and output_svg = None]
  note b = C1_failure_before_solid_and_export [where s = "\<lparr>spec_id = ''s'', operations =
        [OpExtrude \<lparr>ex_length = 20\<rparr>, OpExtrude \<lparr>ex_length = 20\<rparr>]\<rparr>"
      and e = "MultipleExtrude ''s''" and env = demo_env and solid = "Workplane XY"
      and spec = demo_dangling and output_pdf = "''out/a.pdf''" and output_svg = None]
  show ?thesis
    using a b f e by (simp add: demo_views_def)
qed

text \<open>C1 as stated fails: when the unknown view \<open>Top\<close> is detected, the document has been
  created and the body, the page, the template, both views and the first dimension have
  been added to it.\<close>

theorem C1_counterexample:
  "generate_drawing demo_env (Workplane XY) demo_dangling ''out/a.pdf'' None =
     ([NewDocument ''Ring'', AddObject ''Part::Feature'' ''Body'',
       SetShape 0 (Workplane XY), Recompute,
       AddObject ''TechDraw::DrawPage'' ''Page'',
       AddObject ''TechDraw::DrawSVGTemplate'' ''Template'',
       SetTemplate 2 ''A4.svg'', SetPageTemplate 1 2,
       AddObject ''TechDraw::DrawViewPart'' ''Front'', SetSource 3 [0],
       SetDirection 3 (0, - 1, 0), PageAddView 1 3,
       AddObject ''TechDraw::DrawViewPart'' ''SectionA'', SetSource 4 [0],
       SetDirection 4 (1, 0, 0), SetScale 4 2, SetSection 4 True,
       PageAddView 1 4, Recompute,
       AddObject ''TechDraw::DrawViewDimension'' ''Dim_Front'',
       SetType 5 ''Diameter'', SetReferences2D 5 [(3, ''Edge1'')],
       SetFormatSpec 5 ''R'', PageAddView 1 5],
      Inl (UnknownViewId ''Top''))
   \<and> list_ex mutates_document
       (fst (generate_drawing demo_env (Workplane XY) demo_dangling ''out/a.pdf'' None))"
proof -
  have "dimension_type ''Radius'' = ''Diameter''"
    by (simp add: dimension_type_def str_lower_def lower_char_def char_of_def bit_Suc_0_iff)
  then show ?thesis
    by (simp add: drawing_defs demo_env_def demo_dangling_def demo_views_def)
qed

text \<open>
  C2 (the code departs from it). A hole along x with centre (0, 1, 2) is built on the YZ
  plane with \<open>.center(2, 1)\<close>: the y and z coordinates are passed in the wrong order, so the
  axis of the tool runs through y = 2, z = 1 and does not pass through the given centre.
\<close>

theorem C2_x_axis_hole_misses_center:
  "snd (build_solid \<lparr>spec_id = ''xhole'', operations = xhole_ops\<rparr>) =
     Inr (Cut (Box (Workplane XY) 10 10 10 (True, True, True))
            (ExtrudeBy (Circle (Center (Workplane YZ) 2 1) 1) 20 True))
   \<and> cylinder_of (ExtrudeBy (Circle (Center (Workplane YZ) 2 1) 1) 20 True) =
       Some (Cylinder (0, 2, 1) (1, 0, 0) 1 (- 20) 20)
   \<and> \<not> on_axis (Cylinder (0, 2, 1) (1, 0, 0) 1 (- 20) 20) (0, 1, 2)"
  by (simp add: build_solid_def construct_def xhole_ops_def empty_buckets_def
      apply_modifiers_def base_box_solid_def through_hole_tool_def on_axis_def)

text \<open>C2, read off at the tool of that hole: the axis misses the centre (0, 1, 2).\<close>

theorem C2_witness:
  "\<not> on_axis (Cylinder (0, 2, 1) (1, 0, 0) 1 (- 20) 20) (0, 1, 2)"
  using C2_x_axis_hole_misses_center by blast

text \<open>
  C3 (as amended). In every solid that \<open>build_solid\<close> returns, the tool of a ThroughHole is
  among the subtracted tools; it is a cylinder that reaches twice the stated depth to
  either side of its sketch plane, so its length is 4 times the depth, at least twice the
  depth, and it penetrates a box fully exactly when the box reaches no further than twice
  the depth to either side of that plane, along the axis.
\<close>

theorem C3_through_hole_tool_length:
  assumes "snd (build_solid \<lparr>spec_id = sid, operations = ops\<rparr>) = Inr solid"
    and "h \<in> set (through_holes_of ops)"
  shows "through_hole_tool h \<in> set (subtractions solid) \<and>
     (\<exists>c. cylinder_of (through_hole_tool h) = Some c \<and>
        cyl_lo c = - (2 * th_depth h) \<and> cyl_hi c = 2 * th_depth h \<and>
        snd (axis_extent c) - fst (axis_extent c) = 4 * th_depth h \<and>
        2 * th_depth h \<le> snd (axis_extent c) - fst (axis_extent c) \<and>
        (\<forall>bx. penetrates c bx \<longleftrightarrow>
           dot (cyl_dir c) (cyl_point c) - 2 * th_depth h
             \<le> fst (box_extent_along (cyl_dir c) bx) \<and>
           snd (box_extent_along (cyl_dir c) bx)
             \<le> dot (cyl_dir c) (cyl_point c) + 2 * th_depth h))"
proof -
  have ok: "0 < th_depth h" "th_axis h \<in> {''x'', ''y'', ''z''}"
    using through_holes_of_params [OF _ assms(2)] build_solid_Inr_passes [OF assms(1)]
    by (simp_all add: passes_classification_def)
  obtain cx cy cz where c: "th_center h = (cx, cy, cz)" by (cases "th_center h")
  note cyl = through_hole_cylinder [OF ok(2) c]
  have "through_hole_tool h \<in> set (subtractions solid)"
    using build_solid_subtractions [OF assms(1)] assms(2) by simp
  moreover have "\<exists>c. cylinder_of (through_hole_tool h) = Some c \<and>
        cyl_lo c = - (2 * th_depth h) \<and> cyl_hi c = 2 * th_depth h \<and>
        snd (axis_extent c) - fst (axis_extent c) = 4 * th_depth h \<and>
        2 * th_depth h \<le> snd (axis_extent c) - fst (axis_extent c) \<and>
        (\<forall>bx. penetrates c bx \<longleftrightarrow>
           dot (cyl_dir c) (cyl_point c) - 2 * th_depth h
             \<le> fst (box_extent_along (cyl_dir c) bx) \<and>
           snd (box_extent_along (cyl_dir c) bx)
             \<le> dot (cyl_dir c) (cyl_point c) + 2 * th_depth h)"
    using ok(1) by (auto simp: cyl axis_extent_def penetrates_def)
  ultimately show ?thesis by blast
qed

text \<open>C3, at the block of the test file and its hole of depth 10.\<close>

theorem C3_witness:
  "through_hole_tool
      \<lparr>th_radius = 3, th_depth = 10, th_axis = ''z'', th_center = (30, 0, 5)\<rparr>
     \<in> set (subtractions
         (Cut (Cut (Box (Workplane XY) 50 20 10 (False, False, False))
                 (Translate (Box (Center (Workplane XY) 10 10) 20 20 5 (True, True, True))
                    (0, 0, 15 / 2)))
            (ExtrudeBy (Circle (Center (Workplane XY) 30 0) 3) 20 True)))
   \<and> (\<exists>c. cylinder_of (through_hole_tool
              \<lparr>th_radius = 3, th_depth = 10, th_axis = ''z'', th_center = (30, 0, 5)\<rparr>) = Some c
        \<and> cyl_lo c = - 20 \<and> cyl_hi c = 20
        \<and> snd (axis_extent c) - fst (axis_extent c) = 40)"
proof -
  have b: "snd (build_solid \<lparr>spec_id = ''test-block'', operations = block_ops\<rparr>) =
      Inr (Cut (Cut (Box (Workplane XY) 50 20 10 (False, False, False))
                 (Translate (Box (Center (Workplane XY) 10 10) 20 20 5 (True, True, True))
                    (0, 0, 15 / 2)))
            (ExtrudeBy (Circle (Center (Workplane XY) 30 0) 3) 20 True))"
    by (simp add: build_defs block_ops_def)
  have h: "\<lparr>th_radius = 3, th_depth = 10, th_axis = ''z'', th_center = (30, 0, 5)\<rparr>
      \<in> set (through_holes_of block_ops)"
    by (simp add: block_ops_def)
  show ?thesis
    using C3_through_hole_tool_length [OF b h] by auto
qed

text \<open>C3 as stated fails: a hole of depth 1 along z with centre (0, 0, 50), in a box that
  spans z from 0 to 100, is cut with a tool that spans z from -2 to 2; the box is not
  penetrated.\<close>

theorem C3_counterexample:
  "snd (build_solid \<lparr>spec_id = ''thick'', operations = thick_ops\<rparr>) =
     Inr (Cut (Box (Workplane XY) 10 10 100 (True, True, False))
            (ExtrudeBy (Circle (Center (Workplane XY) 0 0) 1) 2 True))
   \<and> box_bounds (Box (Workplane XY) 10 10 100 (True, True, False)) =
       Some ((- 5, - 5, 0), (5, 5, 100))
   \<and> cylinder_of (ExtrudeBy (Circle (Center (Workplane XY) 0 0) 1) 2 True) =
       Some (Cylinder (0, 0, 0) (0, 0, 1) 1 (- 2) 2)
   \<and> axis_extent (Cylinder (0, 0, 0) (0, 0, 1) 1 (- 2) 2) = (- 2, 2)
   \<and> \<not> penetrates (Cylinder (0, 0, 0) (0, 0, 1) 1 (- 2) 2) ((- 5, - 5, 0), (5, 5, 100))"
  by (simp add: build_solid_def construct_def thick_ops_def empty_buckets_def
      apply_modifiers_def base_box_solid_def through_hole_tool_def
      axis_extent_def penetrates_def box_extent_along_def)

text \<open>
  C4 (as amended). A spec that holds a BaseBox together with a SketchCircle or an Extrude
  fails, whatever the order of its operations, with no kernel call made; the error is the
  mixed-style error when the operations pass the first pass (otherwise the first pass has
  raised its own error). A spec that holds neither a BaseBox nor an Extrude fails, with no
  kernel call made; the error is the missing-base-style error when the list is not empty
  and passes the first pass.
\<close>

theorem C4_base_style_checks:
  "(list_ex is_base_box ops \<and> (list_ex is_sketch_circle ops \<or> list_ex is_extrude ops) \<longrightarrow>
      fst (build_solid \<lparr>spec_id = sid, operations = ops\<rparr>) = [] \<and>
      isl (snd (build_solid \<lparr>spec_id = sid, operations = ops\<rparr>)) \<and>
      (passes_classification ops \<longrightarrow>
         build_solid \<lparr>spec_id = sid, operations = ops\<rparr> = ([], Inl (MixedBaseStyle sid))))
   \<and> (\<not> list_ex is_base_box ops \<and> \<not> list_ex is_extrude ops \<longrightarrow>
      fst (build_solid \<lparr>spec_id = sid, operations = ops\<rparr>) = [] \<and>
      isl (snd (build_solid \<lparr>spec_id = sid, operations = ops\<rparr>)) \<and>
      (passes_classification ops \<and> ops \<noteq> [] \<longrightarrow>
         build_solid \<lparr>spec_id = sid, operations = ops\<rparr> = ([], Inl (NoBaseStyle sid))))"
proof (cases "passes_classification ops")
  case False
  then show ?thesis
    using build_solid_fails_unless_passes [of "\<lparr>spec_id = sid, operations = ops\<rparr>"] by simp
next
  case True
  show ?thesis
  proof (intro conjI impI)
    assume m: "list_ex is_base_box ops \<and> (list_ex is_sketch_circle ops \<or> list_ex is_extrude ops)"
    then have *: "build_solid \<lparr>spec_id = sid, operations = ops\<rparr> = ([], Inl (MixedBaseStyle sid))"
      using build_solid_mixed [OF True, of sid]
      by (simp add: list_ex_is_base_box list_ex_is_sketch_circle list_ex_is_extrude)
    show "fst (build_solid \<lparr>spec_id = sid, operations = ops\<rparr>) = []"
      and "isl (snd (build_solid \<lparr>spec_id = sid, operations = ops\<rparr>))"
      and "build_solid \<lparr>spec_id = sid, operations = ops\<rparr> = ([], Inl (MixedBaseStyle sid))"
      using * by simp_all
  next
    assume n: "\<not> list_ex is_base_box ops \<and> \<not> list_ex is_extrude ops"
    show "fst (build_solid \<lparr>spec_id = sid, operations = ops\<rparr>) = []"
      and "isl (snd (build_solid \<lparr>spec_id = sid, operations = ops\<rparr>))"
      using n build_solid_no_base [OF True, of sid]
      by (cases "ops = []"; simp add: list_ex_is_base_box list_ex_is_extrude build_solid_def)+
    assume "passes_classification ops \<and> ops \<noteq> []"
    then show "build_solid \<lparr>spec_id = sid, operations = ops\<rparr> = ([], Inl (NoBaseStyle sid))"
      using n build_solid_no_base [of ops sid]
      by (simp add: list_ex_is_base_box list_ex_is_extrude)
  qed
qed

text \<open>C4, at an Extrude followed by a BaseBox and at a lone SketchCircle.\<close>

theorem C4_witness:
  "build_solid \<lparr>spec_id = ''s'', operations =
      [OpExtrude \<lparr>ex_length = 20\<rparr>,
       OpBaseBox \<lparr>bb_width = 1, bb_depth = 1, bb_height = 1,
                  bb_centered_xy = True, bb_centered_z = False\<rparr>]\<rparr>
     = ([], Inl (MixedBaseStyle ''s''))
   \<and> build_solid \<lparr>spec_id = ''s'', operations =
      [OpSketchCircle \<lparr>sc_radius = 10, sc_is_hole = False\<rparr>]\<rparr>
     = ([], Inl (NoBaseStyle ''s''))"
  using C4_base_style_checks [where sid = "''s''" and ops =
      "[OpExtrude \<lparr>ex_length = 20\<rparr>,
        OpBaseBox \<lparr>bb_width = 1, bb_depth = 1, bb_height = 1,
                   bb_centered_xy = True, bb_centered_z = False\<rparr>]"]
    C4_base_style_checks [where sid = "''s''" and ops =
      "[OpSketchCircle \<lparr>sc_radius = 10, sc_is_hole = False\<rparr>]"]
  by (simp add: passes_classification_def)

text \<open>C4 as stated fails: the empty list holds neither a BaseBox nor an Extrude and is
  rejected with the no-operations error; a BaseBox with a SketchCircle of radius -1 is
  rejected with the radius error of the first pass.\<close>

theorem C4_counterexample:
  "\<not> list_ex is_base_box [] \<and> \<not> list_ex is_extrude []
   \<and> build_solid \<lparr>spec_id = ''s'', operations = []\<rparr> = ([], Inl (NoOperations ''s''))
   \<and> snd (build_solid \<lparr>spec_id = ''s'', operations = []\<rparr>) \<noteq> Inl (NoBaseStyle ''s'')
   \<and> list_ex is_base_box
        [OpBaseBox \<lparr>bb_width = 1, bb_depth = 1, bb_height = 1,
                    bb_centered_xy = True, bb_centered_z = False\<rparr>,
         OpSketchCircle \<lparr>sc_radius = - 1, sc_is_hole = False\<rparr>]
   \<and> list_ex is_sketch_circle
        [OpBaseBox \<lparr>bb_width = 1, bb_depth = 1, bb_height = 1,
                    bb_centered_xy = True, bb_centered_z = False\<rparr>,
         OpSketchCircle \<lparr>sc_radius = - 1, sc_is_hole = False\<rparr>]
   \<and> build_solid \<lparr>spec_id = ''s'', operations =
        [OpBaseBox \<lparr>bb_width = 1, bb_depth = 1, bb_height = 1,
                    bb_centered_xy = True, bb_centered_z = False\<rparr>,
         OpSketchCircle \<lparr>sc_radius = - 1, sc_is_hole = False\<rparr>]\<rparr>
       = ([], Inl SketchCircleRadiusNotPositive)"
  by (simp add: build_defs)

text \<open>
  C5. When the operations before \<open>op\<close> pass the first pass, a second Extrude, a second
  BaseBox, or an operation that breaks a numeric constraint makes \<open>build_solid\<close> fail at
  \<open>op\<close>, whatever follows it, with no kernel call made; and every list that does not pass
  the first pass fails with no kernel call made.
\<close>

theorem C5_classification_failures:
  assumes "passes_classification pre"
  shows
    "(is_extrude op \<and> list_ex is_extrude pre \<longrightarrow>
        build_solid \<lparr>spec_id = sid, operations = pre @ op # post\<rparr> = ([], Inl (MultipleExtrude sid)))
     \<and> (is_base_box op \<and> list_ex is_base_box pre \<longrightarrow>
        build_solid \<lparr>spec_id = sid, operations = pre @ op # post\<rparr> = ([], Inl (MultipleBaseBox sid)))
     \<and> (\<not> params_ok op \<and> \<not> (is_extrude op \<and> list_ex is_extrude pre)
          \<and> \<not> (is_base_box op \<and> list_ex is_base_box pre) \<longrightarrow>
        build_solid \<lparr>spec_id = sid, operations = pre @ op # post\<rparr> = ([], Inl (parameter_error op)))
     \<and> (\<not> passes_classification ops \<longrightarrow>
        fst (build_solid \<lparr>spec_id = sid, operations = ops\<rparr>) = [] \<and>
        isl (snd (build_solid \<lparr>spec_id = sid, operations = ops\<rparr>)))"
proof -
  from assms obtain b where b: "classify sid empty_buckets pre = Inr b"
    using classify_empty_ok_iff by blast
  have ex: "extrude_op b \<noteq> None \<longleftrightarrow> list_ex is_extrude pre"
    using classify_empty_buckets(4) [OF b] by (simp add: list_ex_is_extrude split: list.splits)
  have bb: "base_box b \<noteq> None \<longleftrightarrow> list_ex is_base_box pre"
    using classify_empty_buckets(5) [OF b] by (simp add: list_ex_is_base_box split: list.splits)
  have step: "classify_op sid b op = Inl e \<Longrightarrow>
      build_solid \<lparr>spec_id = sid, operations = pre @ op # post\<rparr> = ([], Inl e)" for e
    using classify_stops [OF b] build_solid_classify_error [of "pre @ op # post" sid e] by simp
  have 1: "build_solid \<lparr>spec_id = sid, operations = pre @ op # post\<rparr> = ([], Inl (MultipleExtrude sid))"
    if "is_extrude op \<and> list_ex is_extrude pre"
  proof -
    have "classify_op sid b op = Inl (MultipleExtrude sid)"
      using that ex by (cases op) auto
    then show ?thesis by (rule step)
  qed
  have 2: "build_solid \<lparr>spec_id = sid, operations = pre @ op # post\<rparr> = ([], Inl (MultipleBaseBox sid))"
    if "is_base_box op \<and> list_ex is_base_box pre"
  proof -
    have "classify_op sid b op = Inl (MultipleBaseBox sid)"
      using that bb by (cases op) auto
    then show ?thesis by (rule step)
  qed
  have 3: "build_solid \<lparr>spec_id = sid, operations = pre @ op # post\<rparr> = ([], Inl (parameter_error op))"
    if "\<not> params_ok op \<and> \<not> (is_extrude op \<and> list_ex is_extrude pre)
          \<and> \<not> (is_base_box op \<and> list_ex is_base_box pre)"
  proof -
    have "classify_op sid b op = Inl (parameter_error op)"
      using that ex bb by (cases op) (auto simp: not_less)
    then show ?thesis by (rule step)
  qed
  have 4: "\<not> passes_classification ops \<longrightarrow>
        fst (build_solid \<lparr>spec_id = sid, operations = ops\<rparr>) = [] \<and>
        isl (snd (build_solid \<lparr>spec_id = sid, operations = ops\<rparr>))"
    using build_solid_fails_unless_passes [of "\<lparr>spec_id = sid, operations = ops\<rparr>"] by simp
  from 1 2 3 4 show ?thesis by blast
qed

text \<open>C5, at a second Extrude, a second BaseBox, a hole with axis \<open>w\<close>, and an Extrude of
  length 0.\<close>

theorem C5_witness:
  "build_solid \<lparr>spec_id = ''s'', operations =
      [OpSketchCircle \<lparr>sc_radius = 10, sc_is_hole = False\<rparr>, OpExtrude \<lparr>ex_length = 20\<rparr>]
      @ OpExtrude \<lparr>ex_length = 5\<rparr> # [OpCutBox \<lparr>cb_width = 1, cb_depth = 1, cb_height = 1,
          cb_center = (0, 0, 0)\<rparr>]\<rparr> = ([], Inl (MultipleExtrude ''s''))
   \<and> build_solid \<lparr>spec_id = ''s'', operations =
      [OpBaseBox \<lparr>bb_width = 1, bb_depth = 1, bb_height = 1,
                  bb_centered_xy = True, bb_centered_z = False\<rparr>]
      @ OpBaseBox \<lparr>bb_width = 2, bb_depth = 2, bb_height = 2,
                  bb_centered_xy = True, bb_centered_z = False\<rparr> # []\<rparr>
       = ([], Inl (MultipleBaseBox ''s''))
   \<and> build_solid \<lparr>spec_id = ''s'', operations =
      [OpBaseBox \<lparr>bb_width = 1, bb_depth = 1, bb_height = 1,
                  bb_centered_xy = True, bb_centered_z = False\<rparr>]
      @ OpThroughHole \<lparr>th_radius = 1, th_depth = 1, th_axis = ''w'', th_center = (0, 0, 0)\<rparr>
        # []\<rparr> = ([], Inl ThroughHoleAxisInvalid)
   \<and> fst (build_solid \<lparr>spec_id = ''s'', operations = [OpExtrude \<lparr>ex_length = 0\<rparr>]\<rparr>) = []
   \<and> isl (snd (build_solid \<lparr>spec_id = ''s'', operations = [OpExtrude \<lparr>ex_length = 0\<rparr>]\<rparr>))"
  using
    C5_classification_failures [where sid = "''s''"
      and pre = "[OpSketchCircle \<lparr>sc_radius = 10, sc_is_hole = False\<rparr>, OpExtrude \<lparr>ex_length = 20\<rparr>]"
      and op = "OpExtrude \<lparr>ex_length = 5\<rparr>"
      and post = "[OpCutBox \<lparr>cb_width = 1, cb_depth = 1, cb_height = 1, cb_center = (0, 0, 0)\<rparr>]"
      and ops = "[OpExtrude \<lparr>ex_length = 0\<rparr>]"]
    C5_classification_failures [where sid = "''s''"
      and pre = "[OpBaseBox \<lparr>bb_width = 1, bb_depth = 1, bb_height = 1,
                  bb_centered_xy = True, bb_centered_z = False\<rparr>]"
      and op = "OpBaseBox \<lparr>bb_width = 2, bb_depth = 2, bb_height = 2,
                  bb_centered_xy = True, bb_centered_z = False\<rparr>"
      and post = "[]" and ops = "[]"]
    C5_classification_failures [where sid = "''s''"
      and pre = "[OpBaseBox \<lparr>bb_width = 1, bb_depth = 1, bb_height = 1,
                  bb_centered_xy = True, bb_centered_z = False\<rparr>]"
      and op = "OpThroughHole \<lparr>th_radius = 1, th_depth = 1, th_axis = ''w'', th_center = (0, 0, 0)\<rparr>"
      and post = "[]" and ops = "[]"]
  by (simp add: passes_classification_def)

text \<open>
  C6 (as amended). A spec whose operations pass the first pass, with an Extrude, no BaseBox
  and no circle with \<open>is_hole = False\<close>, fails with the no-positive-geometry error; only
  the empty XY workplane has been created by then.
\<close>

theorem C6_no_positive_geometry:
  assumes "passes_classification ops" and "list_ex is_extrude ops"
    and "\<not> list_ex is_base_box ops" and "list_all sc_is_hole (circles_of ops)"
  shows "build_solid \<lparr>spec_id = sid, operations = ops\<rparr> =
           ([K_Workplane XY], Inl (NoPositiveGeometry sid))"
proof -
  from assms(1) obtain b where b: "classify sid empty_buckets ops = Inr b"
    using classify_empty_ok_iff by blast
  have "ops \<noteq> []" using assms(2) by auto
  moreover have "base_box b = None"
    using classify_empty_buckets(5) [OF b] assms(3) by (simp add: list_ex_is_base_box)
  moreover have "extrude_op b \<noteq> None"
    using classify_empty_buckets(4) [OF b] assms(2)
    by (simp add: list_ex_is_extrude split: list.splits)
  moreover have "draw_circles (Workplane XY) (sketch_circles b) = Workplane XY"
    using classify_empty_buckets(1) [OF b] assms(4) by (simp add: draw_circles_all_holes)
  ultimately show ?thesis using b by (simp add: build_solid_def construct_def)
qed

text \<open>C6, at one hole circle and one Extrude.\<close>

theorem C6_witness:
  "build_solid \<lparr>spec_id = ''s'', operations =
      [OpSketchCircle \<lparr>sc_radius = 5, sc_is_hole = True\<rparr>, OpExtrude \<lparr>ex_length = 20\<rparr>]\<rparr>
     = ([K_Workplane XY], Inl (NoPositiveGeometry ''s''))"
  using C6_no_positive_geometry [where sid = "''s''" and ops =
      "[OpSketchCircle \<lparr>sc_radius = 5, sc_is_hole = True\<rparr>, OpExtrude \<lparr>ex_length = 20\<rparr>]"]
  by (simp add: passes_classification_def)

text \<open>C6 as stated fails: with a second Extrude the spec still has an Extrude, no BaseBox
  and only hole circles, and it is rejected with the multiple-Extrude error.\<close>

theorem C6_counterexample:
  "list_ex is_extrude [OpSketchCircle \<lparr>sc_radius = 5, sc_is_hole = True\<rparr>,
       OpExtrude \<lparr>ex_length = 20\<rparr>, OpExtrude \<lparr>ex_length = 20\<rparr>]
   \<and> \<not> list_ex is_base_box [OpSketchCircle \<lparr>sc_radius = 5, sc_is_hole = True\<rparr>,
       OpExtrude \<lparr>ex_length = 20\<rparr>, OpExtrude \<lparr>ex_length = 20\<rparr>]
   \<and> list_all sc_is_hole (circles_of [OpSketchCircle \<lparr>sc_radius = 5, sc_is_hole = True\<rparr>,
       OpExtrude \<lparr>ex_length = 20\<rparr>, OpExtrude \<lparr>ex_length = 20\<rparr>])
   \<and> build_solid \<lparr>spec_id = ''s'', operations =
      [OpSketchCircle \<lparr>sc_radius = 5, sc_is_hole = True\<rparr>,
       OpExtrude \<lparr>ex_length = 20\<rparr>, OpExtrude \<lparr>ex_length = 20\<rparr>]\<rparr>
     = ([], Inl (MultipleExtrude ''s''))"
  by (simp add: build_defs)

text \<open>
  C7. If some dimension names a view id that no view of the spec has, \<open>generate_drawing\<close>
  fails and makes no export call; with FreeCAD on the path the error is the unknown-view
  error for the first such dimension.
\<close>

theorem C7_unknown_view_reference:
  assumes "list_ex (\<lambda>d. ds_view_id d \<notin> set (map vs_id (views spec))) (dimensions spec)"
  shows "isl (snd (generate_drawing env solid spec output_pdf output_svg))
     \<and> list_all (\<lambda>c. \<not> is_export c) (fst (generate_drawing env solid spec output_pdf output_svg))
     \<and> (\<forall>p. FREECAD_PATH env = Some p \<and> p \<noteq> [] \<longrightarrow>
          (\<exists>v. first_unknown_view spec = Some v \<and>
             snd (generate_drawing env solid spec output_pdf output_svg) = Inl (UnknownViewId v)))"
proof -
  obtain v where v: "first_unknown_view spec = Some v"
    using list_ex_find [OF assms] by (auto simp: first_unknown_view_def)
  show ?thesis
    using generate_drawing_dangling [OF v] v by blast
qed

text \<open>C7, at the drawing whose second dimension names the view \<open>Top\<close>.\<close>

theorem C7_witness:
  "snd (generate_drawing demo_env (Workplane XY) demo_dangling ''out/a.pdf'' (Some ''out/a.svg''))
     = Inl (UnknownViewId ''Top'')
   \<and> list_all (\<lambda>c. \<not> is_export c)
       (fst (generate_drawing demo_env (Workplane XY) demo_dangling ''out/a.pdf'' (Some ''out/a.svg'')))"
  using C7_unknown_view_reference [where env = demo_env and solid = "Workplane XY"
      and spec = demo_dangling and output_pdf = "''out/a.pdf''" and output_svg = "Some ''out/a.svg''"]
  by (simp add: demo_env_def demo_dangling_def demo_views_def first_unknown_view_def)

text \<open>
  C8. Every solid that \<open>build_solid\<close> returns is its base solid with tools cut from it,
  nothing else. The base is the box of the BaseBox, or the non-hole circles drawn on the
  XY workplane and extruded by the Extrude's length. The tools are, in this order: for
  the hole circles in list order, the circle of that radius on a fresh XY workplane
  extruded by the same length; the tools of the cut boxes in list order, each the
  axis-aligned box of its dimensions about its 3-D centre; the tools of the through holes
  in list order, each a cylinder of the hole's radius along the hole's axis that reaches
  twice the depth to either side of its sketch plane. The kernel calls made are those of
  the returned value.
\<close>

theorem C8_subtraction_order:
  assumes "snd (build_solid \<lparr>spec_id = sid, operations = ops\<rparr>) = Inr solid"
  shows "subtractions solid =
           concat (map (\<lambda>ex. map (\<lambda>sc. ExtrudeBy (Circle (Workplane XY) (sc_radius sc))
                                       (ex_length ex) False)
                              (filter sc_is_hole (circles_of ops)))
                    (extrudes_of ops))
           @ map cut_box_tool (cut_boxes_of ops)
           @ map through_hole_tool (through_holes_of ops)
     \<and> list_all (\<lambda>cb. box_bounds (cut_box_tool cb) =
          Some (centred_box (cb_center cb) (cb_width cb) (cb_depth cb) (cb_height cb)))
        (cut_boxes_of ops)
     \<and> list_all (\<lambda>h. \<exists>c. cylinder_of (through_hole_tool h) = Some c \<and>
          cyl_dir c = hole_axis (th_axis h) \<and> cyl_radius c = th_radius h \<and>
          cyl_lo c = - (2 * th_depth h) \<and> cyl_hi c = 2 * th_depth h)
        (through_holes_of ops)
     \<and> ((\<exists>bb. base_boxes_of ops = [bb] \<and> circles_of ops = [] \<and> extrudes_of ops = [] \<and>
            base_solid solid =
              Box (Workplane XY) (bb_width bb) (bb_depth bb) (bb_height bb)
                (bb_centered_xy bb, bb_centered_xy bb, bb_centered_z bb))
       \<or> (\<exists>ex. base_boxes_of ops = [] \<and> extrudes_of ops = [ex] \<and>
            base_solid solid =
              ExtrudeBy
                (foldl (\<lambda>w sc. Circle w (sc_radius sc)) (Workplane XY)
                   (filter (\<lambda>sc. \<not> sc_is_hole sc) (circles_of ops)))
                (ex_length ex) False))
     \<and> solid = foldl Cut (base_solid solid) (subtractions solid)
     \<and> fst (build_solid \<lparr>spec_id = sid, operations = ops\<rparr>) = kernel_calls solid"
proof -
  have 1: "subtractions solid =
           concat (map (\<lambda>ex. map (\<lambda>sc. ExtrudeBy (Circle (Workplane XY) (sc_radius sc))
                                       (ex_length ex) False)
                              (filter sc_is_hole (circles_of ops)))
                    (extrudes_of ops))
           @ map cut_box_tool (cut_boxes_of ops)
           @ map through_hole_tool (through_holes_of ops)"
    using build_solid_subtractions [OF assms] by (simp add: hole_tool_def [abs_def])
  have 2: "list_all (\<lambda>cb. box_bounds (cut_box_tool cb) =
          Some (centred_box (cb_center cb) (cb_width cb) (cb_depth cb) (cb_height cb)))
        (cut_boxes_of ops)"
    by (simp add: cut_box_tool_bounds list_all_iff)
  have 3: "list_all (\<lambda>h. \<exists>c. cylinder_of (through_hole_tool h) = Some c \<and>
          cyl_dir c = hole_axis (th_axis h) \<and> cyl_radius c = th_radius h \<and>
          cyl_lo c = - (2 * th_depth h) \<and> cyl_hi c = 2 * th_depth h)
        (through_holes_of ops)"
    unfolding list_all_iff
  proof
    fix h assume "h \<in> set (through_holes_of ops)"
    moreover have "list_all params_ok ops"
      using build_solid_Inr_passes [OF assms] by (simp add: passes_classification_def)
    ultimately have "th_axis h \<in> {''x'', ''y'', ''z''}"
      using through_holes_of_params [of ops h] by simp
    then show "\<exists>c. cylinder_of (through_hole_tool h) = Some c \<and>
          cyl_dir c = hole_axis (th_axis h) \<and> cyl_radius c = th_radius h \<and>
          cyl_lo c = - (2 * th_depth h) \<and> cyl_hi c = 2 * th_depth h"
      by (rule through_hole_tool_shape)
  qed
  note 4 = build_solid_base [OF assms]
  have 5: "solid = foldl Cut (base_solid solid) (subtractions solid)"
    by (simp add: foldl_Cut_base)
  note 6 = build_solid_calls [OF assms]
  from 1 2 3 4 5 6 show ?thesis by blast
qed

text \<open>C8, at a sketch-style solid with two hole circles, two cut boxes and two through
  holes interleaved in the list.\<close>

theorem C8_witness:
  "\<exists>solid. snd (build_solid \<lparr>spec_id = ''mixed'', operations = mixed_ops\<rparr>) = Inr solid
     \<and> subtractions solid =
         [ExtrudeBy (Circle (Workplane XY) 5) 20 False,
          ExtrudeBy (Circle (Workplane XY) 4) 20 False,
          Translate (Box (Center (Workplane XY) 7 0) 2 2 2 (True, True, True)) (0, 0, 1),
          Translate (Box (Center (Workplane XY) 0 7) 1 1 1 (True, True, True)) (0, 0, 1),
          ExtrudeBy (Circle (Center (Workplane XZ) 0 10) 1) 6 True,
          ExtrudeBy (Circle (Center (Workplane XY) 8 0) 2) 24 True]
     \<and> base_solid solid = ExtrudeBy (Circle (Workplane XY) 10) 20 False"
proof -
  define S where "S =
    foldl Cut (ExtrudeBy (Circle (Workplane XY) 10) 20 False)
         [ExtrudeBy (Circle (Workplane XY) 5) 20 False,
          ExtrudeBy (Circle (Workplane XY) 4) 20 False,
          Translate (Box (Center (Workplane XY) 7 0) 2 2 2 (True, True, True)) (0, 0, 1),
          Translate (Box (Center (Workplane XY) 0 7) 1 1 1 (True, True, True)) (0, 0, 1),
          ExtrudeBy (Circle (Center (Workplane XZ) 0 10) 1) 6 True,
          ExtrudeBy (Circle (Center (Workplane XY) 8 0) 2) 24 True]"
  have b: "snd (build_solid \<lparr>spec_id = ''mixed'', operations = mixed_ops\<rparr>) = Inr S"
    by (simp add: build_defs mixed_ops_def S_def)
  have "subtractions S =
         [ExtrudeBy (Circle (Workplane XY) 5) 20 False,
          ExtrudeBy (Circle (Workplane XY) 4) 20 False,
          Translate (Box (Center (Workplane XY) 7 0) 2 2 2 (True, True, True)) (0, 0, 1),
          Translate (Box (Center (Workplane XY) 0 7) 1 1 1 (True, True, True)) (0, 0, 1),
          ExtrudeBy (Circle (Center (Workplane XZ) 0 10) 1) 6 True,
          ExtrudeBy (Circle (Center (Workplane XY) 8 0) 2) 24 True]
     \<and> base_solid S = ExtrudeBy (Circle (Workplane XY) 10) 20 False"
    using C8_subtraction_order [OF b]
    by (simp add: mixed_ops_def cut_box_tool_def through_hole_tool_def)
  with b show ?thesis by blast
qed




text \<open>
  C10. A SolidSpec whose operations list is empty is rejected at once with the dedicated
  "contains no operations" error, with no kernel call made, and the error is not the one
  of the missing-base-style check.
\<close>

theorem C10_empty_operations_rejected:
  "build_solid \<lparr>spec_id = sid, operations = []\<rparr> = ([], Inl (NoOperations sid))
   \<and> snd (build_solid \<lparr>spec_id = sid, operations = []\<rparr>) \<noteq> Inl (NoBaseStyle sid)"
  by (simp add: build_solid_def)

text \<open>C10, at the spec named \<open>empty\<close>.\<close>

theorem C10_witness:
  "build_solid \<lparr>spec_id = ''empty'', operations = []\<rparr> = ([], Inl (NoOperations ''empty''))"
  using C10_empty_operations_rejected [of "''empty''"] by blast

end
